theory Spec2Isabelle
  imports Main "HOL-Library.AList"
begin

section \<open>Syntax trees\<close>

text \<open>
  The transform of \<^verbatim>\<open>packages/static-css/src/index.ts\<close> works on the syntax tree of
  the TypeScript compiler. A node is modelled by its kind, the tag names of its JSDoc
  comments and its children in source order:
  \<^item> \<^verbatim>\<open>VariableStatement\<close>: one child, the declaration list, whose children are the
    declarations; a declaration has the children name and, when present, initializer
    (type annotations are left out);
  \<^item> \<^verbatim>\<open>CallExpression\<close>: the callee followed by the arguments;
  \<^item> \<^verbatim>\<open>PropertyAccessExpression\<close>: the object expression and the name;
  \<^item> \<^verbatim>\<open>JsxSelfClosingElement\<close> and \<^verbatim>\<open>JsxOpeningElement\<close>: the tag name and a
    \<^verbatim>\<open>JsxAttributes\<close> node holding the properties; \<^verbatim>\<open>JsxElement\<close>: the opening
    element, the element's children, the closing element;
  \<^item> \<^verbatim>\<open>JsxAttribute\<close>: the name and, when present, the initializer;
    \<^verbatim>\<open>JsxExpression\<close>: the expression, when present;
  \<^item> \<^verbatim>\<open>FunctionDeclaration\<close>: the name first when it has one (an identifier), then
    parameters and body.
  An identifier carries what \<^verbatim>\<open>typeChecker.getSymbolAtLocation\<close> answers for it:
  binding resolution belongs to the compiler, not to this file. Nodes made by the
  \<^verbatim>\<open>ts.create...\<close> functions carry no symbol. The parent link of a node is the head
  of the list of ancestors handed down by the traversal; the root is the source file, so
  every other node has a parent. Positions and source text are not modelled: where the
  source reads the text or the line of a node, the model keeps the node.
\<close>

type_synonym symbol = nat

datatype modifier = ExportKeyword | DeclareKeyword | DefaultKeyword

datatype kind =
    SourceFile string
  | ImportDeclaration
  | VariableStatement "modifier list"
  | VariableDeclarationList
  | VariableDeclaration
  | Identifier string "symbol option"
  | CallExpression
  | PropertyAccessExpression
  | ObjectLiteralExpression
  | PropertyAssignment
  | StringLiteral string
  | NumericLiteral int
  | JsxSelfClosingElement
  | JsxElement
  | JsxOpeningElement
  | JsxClosingElement
  | JsxAttributes
  | JsxAttribute
  | JsxSpreadAttribute
  | JsxExpression
  | JsxText string
  | ParenthesizedExpression
  | ReturnStatement
  | ArrowFunction
  | FunctionExpression
  | FunctionDeclaration
  | Block
  | ConditionalExpression
  | ExpressionStatement
  | OtherKind string

datatype node = Node (kind: kind) (jsDoc: "string list") (children: "node list")

definition moduleName :: string where
  "moduleName = ''@glitz/react''"

definition styledName :: string where
  "styledName = ''styled''"

definition isIdentifier :: "node \<Rightarrow> bool" where
  "isIdentifier n = (case kind n of Identifier t y \<Rightarrow> True | _ \<Rightarrow> False)"

definition escapedText :: "node \<Rightarrow> string" where
  "escapedText n = (case kind n of Identifier t y \<Rightarrow> t | _ \<Rightarrow> [])"

definition getSymbolAtLocation :: "node \<Rightarrow> symbol option" where
  "getSymbolAtLocation n = (case kind n of Identifier t y \<Rightarrow> y | _ \<Rightarrow> None)"

definition isSourceFile :: "node \<Rightarrow> bool" where
  "isSourceFile n = (case kind n of SourceFile f \<Rightarrow> True | _ \<Rightarrow> False)"

definition isVariableStatement :: "node \<Rightarrow> bool" where
  "isVariableStatement n = (case kind n of VariableStatement ms \<Rightarrow> True | _ \<Rightarrow> False)"

definition modifiers :: "node \<Rightarrow> modifier list" where
  "modifiers n = (case kind n of VariableStatement ms \<Rightarrow> ms | _ \<Rightarrow> [])"

text \<open>\<^verbatim>\<open>expression.getText() === styledName\<close>: the source text of an expression is
  \<^verbatim>\<open>styled\<close> exactly when the expression is that identifier.\<close>

definition textIsStyled :: "node \<Rightarrow> bool" where
  "textIsStyled n = (isIdentifier n \<and> escapedText n = styledName)"

text \<open>The first child and the children after it: the callee and the arguments of a call,
  the tag name of an element, the name of a declaration or attribute.\<close>

definition firstChild :: "node \<Rightarrow> node option" where
  "firstChild n = (case children n of [] \<Rightarrow> None | c # cs \<Rightarrow> Some c)"

definition arguments :: "node \<Rightarrow> node list" where
  "arguments n = (case children n of [] \<Rightarrow> [] | c # cs \<Rightarrow> cs)"

definition initializer :: "node \<Rightarrow> node option" where
  "initializer n = (case children n of [c, i] \<Rightarrow> Some i | _ \<Rightarrow> None)"

definition declarations :: "node \<Rightarrow> node list" where
  "declarations n = (case children n of [l] \<Rightarrow> children l | _ \<Rightarrow> [])"

definition properties :: "node \<Rightarrow> node list" where
  "properties n = (case children n of [t, a] \<Rightarrow> children a | _ \<Rightarrow> [])"

definition hasJSDocTag :: "node \<Rightarrow> string \<Rightarrow> bool" where
  "hasJSDocTag n t = (t \<in> set (jsDoc n))"

section \<open>Evaluated values\<close>

text \<open>
  What the evaluator (\<^verbatim>\<open>./evaluator\<close>, outside this file) returns: a constant or a
  requires-runtime result. A function value may carry the node it came from
  (\<^verbatim>\<open>FunctionWithTsNode\<close>). \<open>VStatic\<close> stands for the objects that
  \<^verbatim>\<open>isStaticElement\<close> or \<^verbatim>\<open>isStaticComponent\<close> (\<^verbatim>\<open>./shared\<close>) accept, with their
  \<^verbatim>\<open>elementName\<close> and \<^verbatim>\<open>styles\<close>. A requires-runtime result is a plain object with
  the method \<^verbatim>\<open>getDiagnostics\<close>; its message and origin node are kept.
\<close>

datatype jsval =
    VUndefined
  | VNull
  | VString string
  | VNumber int
  | VFunction "node option"
  | VArray "jsval list"
  | VObject "(string \<times> jsval) list"
  | VStatic string "jsval list"
  | VRequiresRuntime string node

definition isRequiresRuntimeResult :: "jsval \<Rightarrow> bool" where
  "isRequiresRuntimeResult v = (case v of VRequiresRuntime m n \<Rightarrow> True | _ \<Rightarrow> False)"

definition requiresRuntimeResult :: "string \<Rightarrow> node \<Rightarrow> jsval" where
  "requiresRuntimeResult m n = VRequiresRuntime m n"

definition isStaticObject :: "jsval \<Rightarrow> bool" where
  "isStaticObject v = (case v of VStatic e ss \<Rightarrow> True | _ \<Rightarrow> False)"

definition isFunction :: "jsval \<Rightarrow> bool" where
  "isFunction v = (case v of VFunction t \<Rightarrow> True | _ \<Rightarrow> False)"

text \<open>\<^verbatim>\<open>typeof v === 'object'\<close> holds of \<^verbatim>\<open>null\<close>, arrays and objects.\<close>

definition typeofObject :: "jsval \<Rightarrow> bool" where
  "typeofObject v = (case v of VNull \<Rightarrow> True | VArray xs \<Rightarrow> True | VObject kvs \<Rightarrow> True
     | VStatic e ss \<Rightarrow> True | VRequiresRuntime m n \<Rightarrow> True | _ \<Rightarrow> False)"

definition isArray :: "jsval \<Rightarrow> bool" where
  "isArray v = (case v of VArray xs \<Rightarrow> True | _ \<Rightarrow> False)"

section \<open>Evaluable styles\<close>

text \<open>The exceptions of the transform: a \<^verbatim>\<open>TypeError\<close> (a method or property read from
  a value that does not have it) and a \<^verbatim>\<open>RangeError\<close> (the call stack exhausted).\<close>

datatype error = TypeError | RangeError

text \<open>
  \<^verbatim>\<open>anyValuesAreFunctions\<close> walks the enumerable values of a style with
  \<^verbatim>\<open>for (const key in style)\<close>, in enumeration order: a function is returned at once,
  a value with \<^verbatim>\<open>typeof\<close> \<^verbatim>\<open>'object'\<close> (a nested object, an array, \<^verbatim>\<open>null\<close>) is
  searched before the next key. The result \<^verbatim>\<open>false\<close> is \<open>None\<close>. The enumerable
  values of a static object are its element name and its array of styles; the one of a
  requires-runtime result is its method. When the style itself is a function, its only
  enumerable member is the node it carries, if any: the walk then enters the syntax tree,
  where parent links lead round in circles, and ends with the call stack exhausted.
\<close>

fun anyValuesAreFunctions :: "jsval \<Rightarrow> error + jsval option"
  and anyValuesIn :: "jsval list \<Rightarrow> error + jsval option"
  and anyEntriesIn :: "(string \<times> jsval) list \<Rightarrow> error + jsval option" where
  "anyValuesAreFunctions (VObject kvs) = anyEntriesIn kvs"
| "anyValuesAreFunctions (VArray xs) = anyValuesIn xs"
| "anyValuesAreFunctions (VStatic e ss) = anyValuesIn ss"
| "anyValuesAreFunctions (VRequiresRuntime m n) = Inr (Some (VFunction None))"
| "anyValuesAreFunctions VUndefined = Inr None"
| "anyValuesAreFunctions VNull = Inr None"
| "anyValuesAreFunctions (VString t) = Inr None"
| "anyValuesAreFunctions (VNumber i) = Inr None"
| "anyValuesAreFunctions (VFunction None) = Inr None"
| "anyValuesAreFunctions (VFunction (Some tsNode)) = Inl RangeError"
| "anyValuesIn [] = Inr None"
| "anyValuesIn (x # xs) =
     (if isFunction x then Inr (Some x)
      else if typeofObject x then
        (case anyValuesAreFunctions x of
           Inl e \<Rightarrow> Inl e
         | Inr func \<Rightarrow> (case func of Some f \<Rightarrow> Inr (Some f) | None \<Rightarrow> anyValuesIn xs))
      else anyValuesIn xs)"
| "anyEntriesIn [] = Inr None"
| "anyEntriesIn (kv # kvs) =
     (if isFunction (snd kv) then Inr (Some (snd kv))
      else if typeofObject (snd kv) then
        (case anyValuesAreFunctions (snd kv) of
           Inl e \<Rightarrow> Inl e
         | Inr func \<Rightarrow> (case func of Some f \<Rightarrow> Inr (Some f) | None \<Rightarrow> anyEntriesIn kvs))
      else anyEntriesIn kvs)"

text \<open>
  \<^verbatim>\<open>isEvaluableStyle\<close>: a requires-runtime result is not evaluable; otherwise every
  enumerable value must be no function and, when it is a non-null object that is not an
  array, evaluable itself. Arrays are not looked into. A function handed in as the style
  is walked like an object: without a node it has no enumerable member, with a node the
  walk enters the syntax tree and exhausts the call stack.
\<close>

fun isEvaluableStyle :: "jsval \<Rightarrow> error + bool"
  and evaluableValues :: "jsval list \<Rightarrow> error + bool"
  and evaluableEntries :: "(string \<times> jsval) list \<Rightarrow> error + bool" where
  "isEvaluableStyle (VRequiresRuntime m n) = Inr False"
| "isEvaluableStyle (VObject kvs) = evaluableEntries kvs"
| "isEvaluableStyle (VArray xs) = evaluableValues xs"
| "isEvaluableStyle (VStatic e ss) = Inr True"
| "isEvaluableStyle VUndefined = Inr True"
| "isEvaluableStyle VNull = Inr True"
| "isEvaluableStyle (VString t) = Inr True"
| "isEvaluableStyle (VNumber i) = Inr True"
| "isEvaluableStyle (VFunction None) = Inr True"
| "isEvaluableStyle (VFunction (Some tsNode)) = Inl RangeError"
| "evaluableValues [] = Inr True"
| "evaluableValues (x # xs) =
     (if isFunction x then Inr False
      else if x \<noteq> VNull \<and> typeofObject x \<and> \<not> isArray x then
        (case isEvaluableStyle x of
           Inl e \<Rightarrow> Inl e
         | Inr evaluable \<Rightarrow> if evaluable then evaluableValues xs else Inr False)
      else evaluableValues xs)"
| "evaluableEntries [] = Inr True"
| "evaluableEntries (kv # kvs) =
     (if isFunction (snd kv) then Inr False
      else if snd kv \<noteq> VNull \<and> typeofObject (snd kv) \<and> \<not> isArray (snd kv) then
        (case isEvaluableStyle (snd kv) of
           Inl e \<Rightarrow> Inl e
         | Inr evaluable \<Rightarrow> if evaluable then evaluableEntries kvs else Inr False)
      else evaluableEntries kvs)"

text \<open>\<^verbatim>\<open>styles.every(isEvaluableStyle)\<close>: the styles in order, stopping at the first that
  is not evaluable.\<close>

fun everyEvaluable :: "jsval list \<Rightarrow> error + bool" where
  "everyEvaluable [] = Inr True"
| "everyEvaluable (x # xs) =
     (case isEvaluableStyle x of
        Inl e \<Rightarrow> Inl e
      | Inr evaluable \<Rightarrow> if evaluable then everyEvaluable xs else Inr False)"

section \<open>Registries, diagnostics and collaborators\<close>

record StaticStyledComponent =
  componentName :: string
  elementName :: string
  styles :: "jsval list"

text \<open>A recorded reference is the parent of the identifier, kept with its own ancestors
  (nearest first); the empty list is a missing parent.\<close>

record OutsideJsxUsage =
  component :: StaticStyledComponent
  references :: "node list list"
  hasBeenReported :: bool

datatype severity = Error | Warning | Info

text \<open>A diagnostic names the node whose text is its \<^verbatim>\<open>source\<close> and the node whose
  position gives its \<^verbatim>\<open>line\<close>; the inner diagnostic is the one of the requires-runtime
  result, as message and origin.\<close>

record Diagnostic =
  message :: string
  severity :: severity
  source :: node
  line :: node
  innerDiagnostic :: "(string \<times> node) option"

text \<open>The three registries of a file, keyed by what the type checker answered for the
  name (\<open>None\<close> is \<^verbatim>\<open>undefined\<close>), with the diagnostics handed to the reporter so far,
  in emission order.\<close>

record StaticStyledComponents =
  symbolToComponent :: "(symbol option \<times> StaticStyledComponent) list"
  symbolsWithReferencesOutsideJsx :: "(symbol option \<times> OutsideJsxUsage) list"
  extendedComponentSymbols :: "symbol list"
  reported :: "Diagnostic list"

text \<open>The collaborators: the evaluator (closed over the program), the style engine's
  \<^verbatim>\<open>injectStyle\<close> (given one style or an array of styles), and whether a diagnostics
  reporter was passed.\<close>

record collaborators =
  evaluate :: "node \<Rightarrow> jsval"
  injectStyle :: "jsval \<Rightarrow> string"
  diagnosticsReporter :: bool

text \<open>
  \<^verbatim>\<open>getCssData\<close> returns the evaluated style, or a requires-runtime result, or (given a
  parent component) the array of the parent's styles followed by the style. A style that
  the evaluator or the search for functions rejects comes back alone, not in an array,
  also when a parent is given.
\<close>

definition getCssData ::
  "collaborators \<Rightarrow> node \<Rightarrow> node \<Rightarrow> StaticStyledComponent option \<Rightarrow> error + jsval" where
  "getCssData c tsStyle n parentComponent =
     (let style = evaluate c tsStyle in
      if isRequiresRuntimeResult style then Inr style
      else case anyValuesAreFunctions style of
          Inl e \<Rightarrow> Inl e
        | Inr found \<Rightarrow>
            (case found of
               Some propFunc \<Rightarrow>
                 Inr (requiresRuntimeResult ''Functions in style objects requires runtime''
                        (case propFunc of VFunction (Some tsNode) \<Rightarrow> tsNode | _ \<Rightarrow> n))
             | None \<Rightarrow>
                 (case parentComponent of
                    Some p \<Rightarrow> Inr (VArray (styles p @ [style]))
                  | None \<Rightarrow> Inr style)))"

text \<open>JavaScript truthiness, for \<^verbatim>\<open>if (cssData)\<close>.\<close>

definition truthy :: "jsval \<Rightarrow> bool" where
  "truthy v = (case v of VUndefined \<Rightarrow> False | VNull \<Rightarrow> False | VString t \<Rightarrow> t \<noteq> []
     | VNumber i \<Rightarrow> i \<noteq> 0 | _ \<Rightarrow> True)"

section \<open>Reporting\<close>

definition report :: "collaborators \<Rightarrow> Diagnostic \<Rightarrow> StaticStyledComponents \<Rightarrow> StaticStyledComponents" where
  "report c d s = (if diagnosticsReporter c then s\<lparr>reported := reported s @ [d]\<rparr> else s)"

text \<open>\<^verbatim>\<open>reportRequiresRuntimeResult\<close> loops over the results; calling
  \<^verbatim>\<open>getDiagnostics\<close> on a value that is no requires-runtime result throws.\<close>

fun reportResults ::
  "collaborators \<Rightarrow> string \<Rightarrow> severity \<Rightarrow> jsval list \<Rightarrow> node \<Rightarrow> StaticStyledComponents
     \<Rightarrow> error + StaticStyledComponents" where
  "reportResults c msg sev [] n s = Inr s"
| "reportResults c msg sev (r # rs) n s =
     (case r of
        VRequiresRuntime m origin \<Rightarrow>
          reportResults c msg sev rs n
            (report c \<lparr>message = msg, severity = sev, source = n, line = n,
                       innerDiagnostic = Some (m, origin)\<rparr> s)
      | _ \<Rightarrow> Inl TypeError)"

definition reportRequiresRuntimeResult ::
  "collaborators \<Rightarrow> string \<Rightarrow> severity \<Rightarrow> jsval \<Rightarrow> node \<Rightarrow> StaticStyledComponents
     \<Rightarrow> error + StaticStyledComponents" where
  "reportRequiresRuntimeResult c msg sev requiresRuntimeResults n s =
     reportResults c msg sev
       (case requiresRuntimeResults of VArray rs \<Rightarrow> rs | r \<Rightarrow> [r]) n s"

definition reportRequiresRuntimeResultWhenShouldBeStatic ::
  "collaborators \<Rightarrow> jsval \<Rightarrow> node \<Rightarrow> StaticStyledComponents \<Rightarrow> error + StaticStyledComponents" where
  "reportRequiresRuntimeResultWhenShouldBeStatic c requiresRuntimeResults n s =
     reportRequiresRuntimeResult c
       ''Component marked with @glitz-static could not be statically evaluated'' Error
       requiresRuntimeResults n s"

text \<open>The fallback shared by the declaration forms: an error diagnostic when the
  declaration should be static, an info diagnostic otherwise, and nothing without a
  reporter.\<close>

definition reportNotEvaluable ::
  "collaborators \<Rightarrow> bool \<Rightarrow> string \<Rightarrow> jsval \<Rightarrow> node \<Rightarrow> StaticStyledComponents
     \<Rightarrow> error + StaticStyledComponents" where
  "reportNotEvaluable c shouldBeStatic infoMessage results n s =
     (if shouldBeStatic then
        (if diagnosticsReporter c
         then reportRequiresRuntimeResultWhenShouldBeStatic c results n s else Inr s)
      else
        (if diagnosticsReporter c
         then reportRequiresRuntimeResult c infoMessage Info results n s else Inr s))"

definition reportTopLevelJsxInComposedComponent ::
  "collaborators \<Rightarrow> node \<Rightarrow> StaticStyledComponents \<Rightarrow> StaticStyledComponents" where
  "reportTopLevelJsxInComposedComponent c n s =
     report c \<lparr>message = ''styled.[Element] cannot be statically extracted inside components that are decorated by other components'',
               severity = Info, source = n, line = n, innerDiagnostic = None\<rparr> s"

section \<open>Parents and safety\<close>

fun getStatement :: "node \<Rightarrow> node list \<Rightarrow> node" where
  "getStatement n [] = n"
| "getStatement n (p # ps) =
     (if isSourceFile p then n else if kind p = Block then n else getStatement p ps)"

definition isStaticComponentVariableUse :: "node list \<Rightarrow> bool" where
  "isStaticComponentVariableUse anc =
     (case anc of
        [] \<Rightarrow> False
      | parent # ps \<Rightarrow>
          if kind parent = VariableDeclaration then True
          else if kind parent = JsxSelfClosingElement then True
          else if kind parent = JsxOpeningElement then True
          else if kind parent = JsxClosingElement then True
          else if kind parent = CallExpression then
            (case firstChild parent of Some e \<Rightarrow> textIsStyled e | None \<Rightarrow> False)
          else False)"

text \<open>\<^verbatim>\<open>getComponentSymbol\<close> climbs to the nearest named function: a function
  declaration with a name, or a function expression or arrow function that is a child of
  a variable declaration. Trees are rooted in a source file, so the climb ends there.\<close>

fun getComponentSymbol :: "node \<Rightarrow> node list \<Rightarrow> symbol option" where
  "getComponentSymbol n anc =
     (if isSourceFile n then None
      else if kind n = FunctionDeclaration \<and>
              (case firstChild n of Some nm \<Rightarrow> isIdentifier nm | None \<Rightarrow> False)
      then (case firstChild n of Some nm \<Rightarrow> getSymbolAtLocation nm | None \<Rightarrow> None)
      else if (kind n = FunctionExpression \<or> kind n = ArrowFunction) \<and>
              (case anc of p # ps \<Rightarrow> kind p = VariableDeclaration | [] \<Rightarrow> False)
      then (case anc of
              p # ps \<Rightarrow> (case firstChild p of Some nm \<Rightarrow> getSymbolAtLocation nm | None \<Rightarrow> None)
            | [] \<Rightarrow> None)
      else (case anc of [] \<Rightarrow> None | p # ps \<Rightarrow> getComponentSymbol p ps))"

text \<open>The loop \<^verbatim>\<open>while (ts.isParenthesizedExpression(node)) node = node.parent\<close> tests
  the node it was given, then its ancestors.\<close>

fun skipParenthesized :: "node \<Rightarrow> node list \<Rightarrow> node \<times> node list" where
  "skipParenthesized n [] = (n, [])"
| "skipParenthesized n (p # ps) =
     (if kind n = ParenthesizedExpression then skipParenthesized p ps else (n, p # ps))"

definition isTopLevelJsxInComposedComponent ::
  "node \<Rightarrow> node list \<Rightarrow> StaticStyledComponents \<Rightarrow> bool" where
  "isTopLevelJsxInComposedComponent n0 anc0 s =
     (case skipParenthesized n0 anc0 of (n, anc) \<Rightarrow>
        (case getComponentSymbol n anc of
           Some containingComponentSymbol \<Rightarrow>
             if containingComponentSymbol \<in> set (extendedComponentSymbols s) then
               (case anc of
                  [] \<Rightarrow> False
                | parent # ps \<Rightarrow>
                    if kind parent = ReturnStatement then True
                    else if kind parent = ArrowFunction then True
                    else False)
             else False
         | None \<Rightarrow> False))"

section \<open>Declarations\<close>

text \<open>A step of \<^verbatim>\<open>visitNode\<close> either returns (\<open>Some\<close> of the returned node, or of
  \<open>None\<close> for \<^verbatim>\<open>undefined\<close>) or falls through to the next statement (\<open>None\<close>).\<close>

definition thenTry ::
  "error + ('a option \<times> 'st) \<Rightarrow> ('st \<Rightarrow> error + ('a option \<times> 'st)) \<Rightarrow> error + ('a option \<times> 'st)" where
  "thenTry r f =
     (case r of
        Inl e \<Rightarrow> Inl e
      | Inr (ret, s) \<Rightarrow> (case ret of Some x \<Rightarrow> Inr (Some x, s) | None \<Rightarrow> f s))"

definition fallThrough ::
  "error + 'st \<Rightarrow> error + ('a option \<times> 'st)" where
  "fallThrough r = (case r of Inl e \<Rightarrow> Inl e | Inr s \<Rightarrow> Inr (None, s))"

definition register ::
  "symbol option \<Rightarrow> StaticStyledComponent \<Rightarrow> StaticStyledComponents \<Rightarrow> StaticStyledComponents" where
  "register componentSymbol styledComponent s =
     s\<lparr>symbolToComponent :=
         AList.update componentSymbol styledComponent (symbolToComponent s)\<rparr>"

definition notEvaluableMessage :: string where
  "notEvaluableMessage = ''Styled component could not be statically evaluated''"

fun reportReferences ::
  "collaborators \<Rightarrow> string \<Rightarrow> bool \<Rightarrow> node list list \<Rightarrow> StaticStyledComponents
     \<Rightarrow> error + StaticStyledComponents" where
  "reportReferences c compName shouldBeStatic [] s = Inr s"
| "reportReferences c compName shouldBeStatic (r # rs) s =
     (case r of
        [] \<Rightarrow> Inl TypeError
      | reference # upward \<Rightarrow>
          reportReferences c compName shouldBeStatic rs
            (report c
              \<lparr>message = ''Component '' @ [CHR 0x27] @ compName @ [CHR 0x27] @
                   '' cannot be statically extracted since it'' @ [CHR 0x27] @
                   ''s used outside of JSX'',
               severity = (if shouldBeStatic then Error else Info),
               source = getStatement reference upward, line = reference,
               innerDiagnostic = None\<rparr> s))"

definition replaceComponentDeclarationNode ::
  "collaborators \<Rightarrow> symbol option \<Rightarrow> string \<Rightarrow> node \<Rightarrow> StaticStyledComponents \<Rightarrow> bool
     \<Rightarrow> error + (node option \<times> StaticStyledComponents)" where
  "replaceComponentDeclarationNode c componentSymbol compName n s shouldBeStatic =
     (case map_of (symbolsWithReferencesOutsideJsx s) componentSymbol of
        Some outsideJsxUsage \<Rightarrow>
          if diagnosticsReporter c \<and> \<not> hasBeenReported outsideJsxUsage then
            (case reportReferences c compName shouldBeStatic
                    (references outsideJsxUsage) s of
               Inl e \<Rightarrow> Inl e
             | Inr s' \<Rightarrow>
                 Inr (Some n, s'\<lparr>symbolsWithReferencesOutsideJsx :=
                        AList.update componentSymbol (outsideJsxUsage\<lparr>hasBeenReported := True\<rparr>)
                          (symbolsWithReferencesOutsideJsx s')\<rparr>))
          else Inr (Some n, s)
      | None \<Rightarrow>
          if map_of (symbolToComponent s) componentSymbol \<noteq> None then Inr (None, s)
          else Inr (Some n, s))"

text \<open>Direct form \<^verbatim>\<open>styled.tag({...})\<close>.\<close>

definition directForm ::
  "collaborators \<Rightarrow> bool \<Rightarrow> node \<Rightarrow> symbol option \<Rightarrow> string \<Rightarrow> node \<Rightarrow> StaticStyledComponents
     \<Rightarrow> error + (node option option \<times> StaticStyledComponents)" where
  "directForm c shouldBeStatic n componentSymbol compName callExpr s =
     (case firstChild callExpr of
        None \<Rightarrow> Inr (None, s)
      | Some callee \<Rightarrow>
          (case children callee of
             [object, name] \<Rightarrow>
               if kind callee = PropertyAccessExpression \<and> isIdentifier object
                  \<and> escapedText object = styledName then
                 (case arguments callExpr of
                    [styleObject] \<Rightarrow>
                      if kind styleObject = ObjectLiteralExpression then
                        (case getCssData c styleObject n None of
                           Inl e \<Rightarrow> Inl e
                         | Inr cssData \<Rightarrow>
                             (case isEvaluableStyle cssData of
                                Inl e \<Rightarrow> Inl e
                              | Inr evaluable \<Rightarrow>
                                  if evaluable then
                                    Inr (Some (Some n),
                                         register componentSymbol
                                           \<lparr>componentName = compName,
                                            elementName = escapedText name,
                                            styles = [cssData]\<rparr> s)
                                  else fallThrough
                                         (reportNotEvaluable c shouldBeStatic
                                            notEvaluableMessage cssData n s)))
                      else Inr (None, s)
                  | _ \<Rightarrow> Inr (None, s))
               else Inr (None, s)
           | _ \<Rightarrow> Inr (None, s)))"

text \<open>Extension form \<^verbatim>\<open>styled(Parent, {...})\<close>. \<^verbatim>\<open>cssData.every\<close> exists on an array
  only.\<close>

definition extensionForm ::
  "collaborators \<Rightarrow> bool \<Rightarrow> node \<Rightarrow> symbol option \<Rightarrow> string \<Rightarrow> node \<Rightarrow> StaticStyledComponents
     \<Rightarrow> error + (node option option \<times> StaticStyledComponents)" where
  "extensionForm c shouldBeStatic n componentSymbol compName callExpr s =
     (case firstChild callExpr of
        None \<Rightarrow> Inr (None, s)
      | Some callee \<Rightarrow>
          if isIdentifier callee \<and> escapedText callee = styledName then
            (case arguments callExpr of
               [parentStyledComponent, styleObject] \<Rightarrow>
                 if isIdentifier parentStyledComponent
                    \<and> kind styleObject = ObjectLiteralExpression then
                   (case map_of (symbolToComponent s)
                           (getSymbolAtLocation parentStyledComponent) of
                      None \<Rightarrow> Inr (None, s)
                    | Some parent \<Rightarrow>
                        (case getCssData c styleObject n (Some parent) of
                           Inl e \<Rightarrow> Inl e
                         | Inr answer \<Rightarrow>
                             (case answer of
                                VArray cssData \<Rightarrow>
                                  (case everyEvaluable cssData of
                                     Inl e \<Rightarrow> Inl e
                                   | Inr evaluable \<Rightarrow>
                                       if evaluable then
                                         Inr (Some (Some n),
                                              register componentSymbol
                                                \<lparr>componentName = compName,
                                                 elementName = elementName parent,
                                                 styles = cssData\<rparr> s)
                                       else fallThrough
                                              (reportNotEvaluable c shouldBeStatic
                                                 notEvaluableMessage
                                                 (VArray (filter isRequiresRuntimeResult cssData))
                                                 n s))
                              | _ \<Rightarrow> Inl TypeError)))
                 else Inr (None, s)
             | _ \<Rightarrow> Inr (None, s))
          else Inr (None, s))"

text \<open>Opaque factory form: the declared name looks like Pascal case and the evaluator
  folds the initializer to a static element or component. Names are ASCII.\<close>

definition toUpperCaseChar :: "char \<Rightarrow> char" where
  "toUpperCaseChar ch =
     (let k = (of_char ch :: nat) in if 97 \<le> k \<and> k \<le> 122 then char_of (k - 32) else ch)"

definition toLowerCaseChar :: "char \<Rightarrow> char" where
  "toLowerCaseChar ch =
     (let k = (of_char ch :: nat) in if 65 \<le> k \<and> k \<le> 90 then char_of (k + 32) else ch)"

definition toLowerCase :: "string \<Rightarrow> string" where
  "toLowerCase t = map toLowerCaseChar t"

definition looksPascalCase :: "string \<Rightarrow> bool" where
  "looksPascalCase compName =
     (case compName of
        a # b # rest \<Rightarrow> a = toUpperCaseChar a \<and> b = toLowerCaseChar b
      | _ \<Rightarrow> False)"

definition factoryForm ::
  "collaborators \<Rightarrow> bool \<Rightarrow> node \<Rightarrow> symbol option \<Rightarrow> string \<Rightarrow> node \<Rightarrow> StaticStyledComponents
     \<Rightarrow> error + (node option option \<times> StaticStyledComponents)" where
  "factoryForm c shouldBeStatic n componentSymbol compName init s =
     (if looksPascalCase compName then
        (case evaluate c init of
           VStatic objectElementName objectStyles \<Rightarrow>
             (case everyEvaluable objectStyles of
                Inl e \<Rightarrow> Inl e
              | Inr evaluable \<Rightarrow>
                  if evaluable then
                    Inr (None,
                         register componentSymbol
                           \<lparr>componentName = compName,
                            elementName = objectElementName,
                            styles = objectStyles\<rparr> s)
                  else fallThrough
                         (reportNotEvaluable c shouldBeStatic notEvaluableMessage
                            (VArray (filter isRequiresRuntimeResult objectStyles)) n s))
         | _ \<Rightarrow> Inr (None, s))
      else Inr (None, s))"

text \<open>The block for variable statements: skipped for an exported statement; a statement
  of one declaration with an identifier name and an initializer is, after the first pass,
  handed to \<^verbatim>\<open>replaceComponentDeclarationNode\<close>, and in the first pass tried as direct,
  extension and factory form in turn when the initializer is a call.\<close>

definition visitVariableStatement ::
  "collaborators \<Rightarrow> bool \<Rightarrow> bool \<Rightarrow> node \<Rightarrow> StaticStyledComponents
     \<Rightarrow> error + (node option option \<times> StaticStyledComponents)" where
  "visitVariableStatement c allShouldBeStatic isFirstPass n s =
     (if isVariableStatement n \<and> ExportKeyword \<notin> set (modifiers n) then
        (case declarations n of
           [declaration] \<Rightarrow>
             (case children declaration of
                [name, init] \<Rightarrow>
                  if isIdentifier name then
                    (let componentSymbol = getSymbolAtLocation name;
                         shouldBeStatic = (hasJSDocTag n ''glitz-static'' \<or> allShouldBeStatic);
                         compName = escapedText name
                     in
                     if \<not> isFirstPass then
                       (case replaceComponentDeclarationNode c componentSymbol compName n s
                               shouldBeStatic of
                          Inl e \<Rightarrow> Inl e
                        | Inr (r, s') \<Rightarrow> Inr (Some r, s'))
                     else if kind init = CallExpression then
                       thenTry (directForm c shouldBeStatic n componentSymbol compName init s)
                         (\<lambda>s1. thenTry
                            (extensionForm c shouldBeStatic n componentSymbol compName init s1)
                            (\<lambda>s2. factoryForm c shouldBeStatic n componentSymbol compName
                                     init s2))
                     else Inr (None, s))
                  else Inr (None, s)
              | _ \<Rightarrow> Inr (None, s))
         | _ \<Rightarrow> Inr (None, s))
      else Inr (None, s))"

section \<open>Markup usages\<close>

definition attributeName :: "node \<Rightarrow> node option" where
  "attributeName p = (if kind p = JsxAttribute then firstChild p else None)"

definition isCssAttribute :: "node \<Rightarrow> bool" where
  "isCssAttribute p =
     (case attributeName p of
        Some nm \<Rightarrow> isIdentifier nm \<and> escapedText nm = ''css''
      | None \<Rightarrow> False)"

definition passThroughProps :: "node list \<Rightarrow> node list" where
  "passThroughProps props =
     filter (\<lambda>p. case attributeName p of
                    Some nm \<Rightarrow> if isIdentifier nm then escapedText nm \<noteq> ''css'' else True
                  | None \<Rightarrow> True) props"

text \<open>\<^verbatim>\<open>getCssDataFromCssProp\<close>: the first attribute named \<^verbatim>\<open>css\<close>, when its
  initializer is an expression container holding an object literal, is evaluated; an
  evaluable style is returned, otherwise a diagnostic is reported and the answer is
  \<^verbatim>\<open>undefined\<close>.\<close>

definition getCssDataFromCssProp ::
  "collaborators \<Rightarrow> bool \<Rightarrow> node \<Rightarrow> StaticStyledComponents
     \<Rightarrow> error + (jsval option \<times> StaticStyledComponents)" where
  "getCssDataFromCssProp c allShouldBeStatic n s =
     (case find isCssAttribute (properties n) of
        None \<Rightarrow> Inr (None, s)
      | Some cssJsxAttr \<Rightarrow>
          (case initializer cssJsxAttr of
             None \<Rightarrow> Inr (None, s)
           | Some container \<Rightarrow>
               (case children container of
                  [expression] \<Rightarrow>
                    if kind container = JsxExpression
                       \<and> kind expression = ObjectLiteralExpression then
                      (case getCssData c expression n None of
                         Inl e \<Rightarrow> Inl e
                       | Inr cssData \<Rightarrow>
                           (case isEvaluableStyle cssData of
                              Inl e \<Rightarrow> Inl e
                            | Inr evaluable \<Rightarrow>
                                if evaluable then Inr (Some cssData, s)
                                else fallThrough
                                       (reportNotEvaluable c allShouldBeStatic
                                          ''css prop could not be statically evaluated''
                                          cssData n s)))
                    else Inr (None, s)
                | _ \<Rightarrow> Inr (None, s))))"

definition createIdentifier :: "string \<Rightarrow> node" where
  "createIdentifier t = Node (Identifier t None) [] []"

definition createClassName :: "string \<Rightarrow> node" where
  "createClassName className =
     Node JsxAttribute [] [createIdentifier ''className'', Node (StringLiteral className) [] []]"

definition createJsxAttributes :: "node list \<Rightarrow> string \<Rightarrow> node" where
  "createJsxAttributes props className =
     Node JsxAttributes [] (passThroughProps props @ [createClassName className])"

definition createJsxSelfClosingElement :: "string \<Rightarrow> node list \<Rightarrow> string \<Rightarrow> node" where
  "createJsxSelfClosingElement tag props className =
     Node JsxSelfClosingElement [] [createIdentifier tag, createJsxAttributes props className]"

definition jsxChildren :: "node \<Rightarrow> node list" where
  "jsxChildren n = butlast (tl (children n))"

definition createJsxElement :: "string \<Rightarrow> node list \<Rightarrow> string \<Rightarrow> node list \<Rightarrow> node" where
  "createJsxElement tag props className kids =
     Node JsxElement []
       ([Node JsxOpeningElement [] [createIdentifier tag, createJsxAttributes props className]]
        @ kids @ [Node JsxClosingElement [] [createIdentifier tag]])"

text \<open>The tag \<^verbatim>\<open>styled.Name\<close>: a property access on the identifier \<^verbatim>\<open>styled\<close>; the
  answer is the name.\<close>

definition styledTag :: "node \<Rightarrow> string option" where
  "styledTag element =
     (case firstChild element of
        None \<Rightarrow> None
      | Some tag \<Rightarrow>
          (case children tag of
             [object, name] \<Rightarrow>
               if kind tag = PropertyAccessExpression \<and> isIdentifier object
                  \<and> escapedText object = styledName
               then Some (escapedText name) else None
           | _ \<Rightarrow> None))"

text \<open>The tag is an identifier that resolves to a registered component with no
  reference outside markup.\<close>

definition componentTag :: "node \<Rightarrow> StaticStyledComponents \<Rightarrow> StaticStyledComponent option" where
  "componentTag element s =
     (case firstChild element of
        None \<Rightarrow> None
      | Some tag \<Rightarrow>
          if isIdentifier tag then
            (case getSymbolAtLocation tag of
               None \<Rightarrow> None
             | Some jsxTagSymbol \<Rightarrow>
                 if map_of (symbolsWithReferencesOutsideJsx s) (Some jsxTagSymbol) = None
                 then map_of (symbolToComponent s) (Some jsxTagSymbol) else None)
          else None)"

text \<open>Rewriting a usage of \<^verbatim>\<open>styled.Name\<close>: \<open>element\<close> holds the tag and attributes
  (the node itself, or its opening element), \<open>build\<close> makes the replacement from the
  lower-cased name, the attributes and the class name.\<close>

definition rewriteStyledTag ::
  "collaborators \<Rightarrow> bool \<Rightarrow> node list \<Rightarrow> node \<Rightarrow> node
     \<Rightarrow> (string \<Rightarrow> node list \<Rightarrow> string \<Rightarrow> node) \<Rightarrow> StaticStyledComponents
     \<Rightarrow> error + (node option option \<times> StaticStyledComponents)" where
  "rewriteStyledTag c allShouldBeStatic anc n element build s =
     (case styledTag element of
        None \<Rightarrow> Inr (None, s)
      | Some name \<Rightarrow>
          if \<not> isTopLevelJsxInComposedComponent n anc s then
            (case getCssDataFromCssProp c allShouldBeStatic element s of
               Inl e \<Rightarrow> Inl e
             | Inr (cssData, s') \<Rightarrow>
                 (case cssData of
                    None \<Rightarrow> Inr (None, s')
                  | Some style \<Rightarrow>
                      if truthy style then
                        Inr (Some (Some (build (toLowerCase name) (properties element)
                                           (injectStyle c style))), s')
                      else Inr (None, s')))
          else Inr (None, reportTopLevelJsxInComposedComponent c n s))"

text \<open>Rewriting a usage of a registered component: the component's styles, followed by
  the \<^verbatim>\<open>css\<close> style when there is one.\<close>

definition rewriteComponentTag ::
  "collaborators \<Rightarrow> bool \<Rightarrow> node list \<Rightarrow> node \<Rightarrow> node
     \<Rightarrow> (string \<Rightarrow> node list \<Rightarrow> string \<Rightarrow> node) \<Rightarrow> StaticStyledComponents
     \<Rightarrow> error + (node option option \<times> StaticStyledComponents)" where
  "rewriteComponentTag c allShouldBeStatic anc n element build s =
     (case componentTag element s of
        None \<Rightarrow> Inr (None, s)
      | Some styledComponent \<Rightarrow>
          if \<not> isTopLevelJsxInComposedComponent n anc s then
            (case getCssDataFromCssProp c allShouldBeStatic element s of
               Inl e \<Rightarrow> Inl e
             | Inr (cssPropData, s') \<Rightarrow>
                 (let stack =
                        (case cssPropData of
                           None \<Rightarrow> styles styledComponent
                         | Some style \<Rightarrow>
                             if truthy style then styles styledComponent @ [style]
                             else styles styledComponent)
                  in Inr (Some (Some (build (elementName styledComponent) (properties element)
                                        (injectStyle c (VArray stack)))), s')))
          else Inr (None, reportTopLevelJsxInComposedComponent c n s))"

definition openingElement :: "node \<Rightarrow> node" where
  "openingElement n = (case firstChild n of Some e \<Rightarrow> e | None \<Rightarrow> Node JsxOpeningElement [] [])"

section \<open>Visiting a node\<close>

text \<open>The identifier step: an identifier that is not a markup tag, a child of a variable
  declaration or a child of a call of \<^verbatim>\<open>styled\<close>, and that resolves to a registered
  component, is recorded with its parent.\<close>

definition recordReference :: "node list \<Rightarrow> node \<Rightarrow> StaticStyledComponents \<Rightarrow> StaticStyledComponents" where
  "recordReference anc n s =
     (if isIdentifier n \<and> \<not> isStaticComponentVariableUse anc then
        (case getSymbolAtLocation n of
           None \<Rightarrow> s
         | Some symb \<Rightarrow>
             (case map_of (symbolToComponent s) (Some symb) of
                None \<Rightarrow> s
              | Some registered \<Rightarrow>
                  (let usage =
                         (case map_of (symbolsWithReferencesOutsideJsx s) (Some symb) of
                            Some u \<Rightarrow> u
                          | None \<Rightarrow> \<lparr>component = registered, references = [],
                                     hasBeenReported = False\<rparr>)
                   in s\<lparr>symbolsWithReferencesOutsideJsx :=
                          AList.update (Some symb)
                            (usage\<lparr>references := references usage @ [anc]\<rparr>)
                            (symbolsWithReferencesOutsideJsx s)\<rparr>)))
      else s)"

definition recordExtended :: "bool \<Rightarrow> node \<Rightarrow> StaticStyledComponents \<Rightarrow> StaticStyledComponents" where
  "recordExtended isFirstPass n s =
     (if isFirstPass \<and> kind n = CallExpression
         \<and> (case firstChild n of Some e \<Rightarrow> textIsStyled e | None \<Rightarrow> False) then
        (case arguments n of
           [] \<Rightarrow> s
         | parentComponent # others \<Rightarrow>
             if isIdentifier parentComponent then
               (case getSymbolAtLocation parentComponent of
                  None \<Rightarrow> s
                | Some symb \<Rightarrow>
                    s\<lparr>extendedComponentSymbols := extendedComponentSymbols s @ [symb]\<rparr>)
             else s)
      else s)"

definition visitNode ::
  "collaborators \<Rightarrow> bool \<Rightarrow> bool \<Rightarrow> node list \<Rightarrow> node \<Rightarrow> StaticStyledComponents
     \<Rightarrow> error + (node option \<times> StaticStyledComponents)" where
  "visitNode c allShouldBeStatic isFirstPass anc n s =
     (if hasJSDocTag n ''glitz-dynamic'' then Inr (Some n, s)
      else
        (case
           thenTry (visitVariableStatement c allShouldBeStatic isFirstPass n
                      (recordExtended isFirstPass n (recordReference anc n s)))
             (\<lambda>s1. thenTry
                (if \<not> isFirstPass \<and> kind n = JsxSelfClosingElement
                 then rewriteStyledTag c allShouldBeStatic anc n n createJsxSelfClosingElement s1
                 else Inr (None, s1))
                (\<lambda>s2. thenTry
                   (if \<not> isFirstPass \<and> kind n = JsxElement
                    then thenTry
                           (rewriteStyledTag c allShouldBeStatic anc n (openingElement n)
                              (\<lambda>tag props h. createJsxElement tag props h (jsxChildren n)) s2)
                           (\<lambda>s3. rewriteComponentTag c allShouldBeStatic anc n (openingElement n)
                              (\<lambda>tag props h. createJsxElement tag props h (jsxChildren n)) s3)
                    else Inr (None, s2))
                   (\<lambda>s4.
                      if kind n = JsxSelfClosingElement
                      then rewriteComponentTag c allShouldBeStatic anc n n
                             createJsxSelfClosingElement s4
                      else Inr (None, s4))))
         of
           Inl e \<Rightarrow> Inl e
         | Inr (ret, s') \<Rightarrow>
             (case ret of Some r \<Rightarrow> Inr (r, s') | None \<Rightarrow> Inr (Some n, s'))))"

section \<open>The traversal\<close>

text \<open>
  \<^verbatim>\<open>visitNodeAndChildren\<close> visits a node and then, with \<^verbatim>\<open>ts.visitEachChild\<close>, the
  children of what \<^verbatim>\<open>visitNode\<close> returned, left to right, the registries threaded
  through; a visit that answers \<^verbatim>\<open>undefined\<close> yields the empty array, which drops the
  node from its parent. The children keep the visited node's place in the tree, so their
  parent is the node as it stood before the visit. A node rebuilt because one of its
  children changed keeps its kind and its JSDoc tags. The recursion ends because the
  children of a replacement weigh less than the element replaced.

  Scope. A tree here is the text it stands for and does not record whether a node was
  parsed or rebuilt. In the program a node rebuilt by \<^verbatim>\<open>ts.visitEachChild\<close> is a
  new object: \<^verbatim>\<open>ts.getJSDocTags\<close> finds no tag on it, it has no parent, and
  \<^verbatim>\<open>getSourceFile\<close> answers \<^verbatim>\<open>undefined\<close> for it, so that a diagnostic on it
  raises a \<^verbatim>\<open>TypeError\<close>. No pass visits a node it has rebuilt itself, so the
  difference can show only in a pass after the first, at a node the first pass rebuilt.
  General statements about later passes are therefore made for the visits that return,
  and depend on no tag, parent or diagnostic of the node.
\<close>

fun weight :: "node \<Rightarrow> nat" and weights :: "node list \<Rightarrow> nat" where
  "weight (Node k j cs) =
     (if k = JsxSelfClosingElement \<or> k = JsxElement then 10 else 1) + weights cs"
| "weights [] = 0"
| "weights (x # xs) = weight x + weights xs"

lemma weight_pos: "0 < weight n"
  by (cases n) simp

lemma weights_append: "weights (xs @ ys) = weights xs + weights ys"
  by (induction xs) simp_all

lemma weights_filter: "weights (filter P xs) \<le> weights xs"
  by (induction xs) simp_all

lemma weights_butlast: "weights (butlast xs) \<le> weights xs"
  by (induction xs) simp_all

lemma weight_children: "weight n = (if kind n = JsxSelfClosingElement \<or> kind n = JsxElement then 10 else 1) + weights (children n)"
  by (cases n) simp

lemma weights_properties: "weights (properties e) \<le> weights (children e)"
  by (auto simp: properties_def weight_children split: list.splits)

lemma weights_created_attributes:
  "weight (createJsxAttributes props h) \<le> 4 + weights props"
  using weights_filter [of _ props]
  by (simp add: createJsxAttributes_def createClassName_def createIdentifier_def
      passThroughProps_def weights_append)

lemma weights_selfClosing:
  "weights (children (createJsxSelfClosingElement tag (properties n) h)) < 10 + weights (children n)"
  using weights_created_attributes [of "properties n" h] weights_properties [of n]
  by (simp add: createJsxSelfClosingElement_def createIdentifier_def)

lemma weights_opening_kids:
  "weights (properties (openingElement n)) + weights (jsxChildren n) \<le> weights (children n)"
proof (cases "children n")
  case Nil
  then show ?thesis
    by (simp add: openingElement_def firstChild_def jsxChildren_def properties_def)
next
  case (Cons e rest)
  have "weights (properties e) \<le> weight e"
    using weights_properties [of e] by (simp add: weight_children)
  moreover have "weights (butlast rest) \<le> weights rest"
    by (rule weights_butlast)
  ultimately show ?thesis
    using Cons by (simp add: openingElement_def firstChild_def jsxChildren_def)
qed

lemma weights_element:
  "weights (children (createJsxElement tag (properties (openingElement n)) h (jsxChildren n)))
     < 10 + weights (children n)"
  using weights_created_attributes [of "properties (openingElement n)" h] weights_opening_kids [of n]
  by (simp add: createJsxElement_def createIdentifier_def weights_append)

lemma rewriteStyledTag_result:
  "rewriteStyledTag c a anc n element build s = Inr (Some (Some v), s')
     \<Longrightarrow> \<exists>tag h. v = build tag (properties element) h"
  by (auto simp: rewriteStyledTag_def split: option.splits if_splits sum.splits prod.splits)

lemma rewriteStyledTag_not_undefined:
  "rewriteStyledTag c a anc n element build s \<noteq> Inr (Some None, s')"
  by (auto simp: rewriteStyledTag_def split: option.splits if_splits sum.splits prod.splits)

lemma rewriteComponentTag_result:
  "rewriteComponentTag c a anc n element build s = Inr (Some (Some v), s')
     \<Longrightarrow> \<exists>tag h. v = build tag (properties element) h"
  by (auto simp: rewriteComponentTag_def Let_def split: option.splits if_splits sum.splits prod.splits)

lemma thenTry_returns:
  "thenTry r f = Inr (Some x, s') \<Longrightarrow>
     r = Inr (Some x, s') \<or> (\<exists>s1. r = Inr (None, s1) \<and> f s1 = Inr (Some x, s'))"
  by (auto simp: thenTry_def split: sum.splits option.splits prod.splits)

lemma fallThrough_returns: "fallThrough r \<noteq> Inr (Some x, s')"
  by (auto simp: fallThrough_def split: sum.splits)

lemma directForm_returns:
  "directForm c sb n sy nm call s = Inr (Some r, s') \<Longrightarrow> r = Some n"
  by (auto simp: directForm_def Let_def fallThrough_returns
      split: option.splits list.splits if_splits sum.splits)

lemma extensionForm_returns:
  "extensionForm c sb n sy nm call s = Inr (Some r, s') \<Longrightarrow> r = Some n"
  by (auto simp: extensionForm_def fallThrough_returns
      split: option.splits list.splits if_splits jsval.splits sum.splits)

lemma factoryForm_returns:
  "factoryForm c sb n sy nm init s \<noteq> Inr (Some r, s')"
  by (auto simp: factoryForm_def fallThrough_returns
      split: if_splits jsval.splits sum.splits)

lemma replaceComponentDeclarationNode_returns:
  "replaceComponentDeclarationNode c sy nm n s sb = Inr (Some v, s') \<Longrightarrow> v = n"
  by (auto simp: replaceComponentDeclarationNode_def split: option.splits if_splits sum.splits)

lemma visitVariableStatement_result:
  assumes "visitVariableStatement c a fp n s = Inr (Some (Some v), s')"
  shows "v = n"
proof -
  from assms obtain name init where
    r: "(\<not> fp \<and> (\<exists>r. replaceComponentDeclarationNode c (getSymbolAtLocation name)
             (escapedText name) n s (hasJSDocTag n ''glitz-static'' \<or> a) = Inr (r, s') \<and> r = Some v))
        \<or> (fp \<and> thenTry (directForm c (hasJSDocTag n ''glitz-static'' \<or> a) n
                 (getSymbolAtLocation name) (escapedText name) init s)
               (\<lambda>s1. thenTry (extensionForm c (hasJSDocTag n ''glitz-static'' \<or> a) n
                        (getSymbolAtLocation name) (escapedText name) init s1)
                  (\<lambda>s2. factoryForm c (hasJSDocTag n ''glitz-static'' \<or> a) n
                        (getSymbolAtLocation name) (escapedText name) init s2))
               = Inr (Some (Some v), s'))"
    by (auto simp: visitVariableStatement_def Let_def
        split: if_splits list.splits sum.splits prod.splits)
  then show ?thesis
  proof
    assume "\<not> fp \<and> (\<exists>r. replaceComponentDeclarationNode c (getSymbolAtLocation name)
             (escapedText name) n s (hasJSDocTag n ''glitz-static'' \<or> a) = Inr (r, s') \<and> r = Some v)"
    then show ?thesis by (auto dest: replaceComponentDeclarationNode_returns)
  next
    assume "fp \<and> thenTry (directForm c (hasJSDocTag n ''glitz-static'' \<or> a) n
                 (getSymbolAtLocation name) (escapedText name) init s)
               (\<lambda>s1. thenTry (extensionForm c (hasJSDocTag n ''glitz-static'' \<or> a) n
                        (getSymbolAtLocation name) (escapedText name) init s1)
                  (\<lambda>s2. factoryForm c (hasJSDocTag n ''glitz-static'' \<or> a) n
                        (getSymbolAtLocation name) (escapedText name) init s2))
               = Inr (Some (Some v), s')"
    then show ?thesis
      by (auto dest!: thenTry_returns dest: directForm_returns extensionForm_returns
          simp: factoryForm_returns)
  qed
qed

lemma weight_rewritten_selfClosing:
  "kind n = JsxSelfClosingElement \<Longrightarrow>
     weights (children (createJsxSelfClosingElement tag (properties n) h)) < weight n"
  using weights_selfClosing [of tag n h] by (simp add: weight_children)

lemma weight_rewritten_element:
  "kind n = JsxElement \<Longrightarrow>
     weights (children (createJsxElement tag (properties (openingElement n)) h (jsxChildren n)))
       < weight n"
  using weights_element [of tag n h] by (simp add: weight_children)

lemma weight_same: "weights (children n) < weight n"
  by (simp add: weight_children)

lemma visitNode_children_weight:
  assumes "visitNode c a fp anc n s = Inr (Some v, s')"
  shows "weights (children v) < weight n"
  using assms unfolding visitNode_def
  by (auto split: if_splits sum.splits prod.splits option.splits
      dest!: thenTry_returns visitVariableStatement_result rewriteStyledTag_result
        rewriteComponentTag_result
      simp: weight_rewritten_selfClosing weight_rewritten_element weight_same)

function visitNodeAndChildren ::
  "collaborators \<Rightarrow> bool \<Rightarrow> bool \<Rightarrow> node list \<Rightarrow> node \<Rightarrow> StaticStyledComponents
     \<Rightarrow> error + (node list \<times> StaticStyledComponents)"
  and visitEachChild ::
  "collaborators \<Rightarrow> bool \<Rightarrow> bool \<Rightarrow> node list \<Rightarrow> node list \<Rightarrow> StaticStyledComponents
     \<Rightarrow> error + (node list \<times> StaticStyledComponents)" where
  "visitNodeAndChildren c a fp anc n s =
     (case visitNode c a fp anc n s of
        Inl e \<Rightarrow> Inl e
      | Inr (visitedNode, s1) \<Rightarrow>
          (case visitedNode of
             None \<Rightarrow> Inr ([], s1)
           | Some v \<Rightarrow>
               (case visitEachChild c a fp (n # anc) (children v) s1 of
                  Inl e \<Rightarrow> Inl e
                | Inr (cs, s2) \<Rightarrow> Inr ([Node (kind v) (jsDoc v) cs], s2))))"
| "visitEachChild c a fp anc [] s = Inr ([], s)"
| "visitEachChild c a fp anc (x # xs) s =
     (case visitNodeAndChildren c a fp anc x s of
        Inl e \<Rightarrow> Inl e
      | Inr (r, s1) \<Rightarrow>
          (case visitEachChild c a fp anc xs s1 of
             Inl e \<Rightarrow> Inl e
           | Inr (rs, s2) \<Rightarrow> Inr (r @ rs, s2)))"
  by pat_completeness auto
termination
  apply (relation "measure (\<lambda>x. case x of
            Inl (c, a, fp, anc, n, s) \<Rightarrow> 2 * weight n
          | Inr (c, a, fp, anc, xs, s) \<Rightarrow> 2 * weights xs + 1)")
     apply simp
    apply (auto dest!: visitNode_children_weight)
  using weight_pos apply (metis)
  done


section \<open>The transformer\<close>

definition fileName :: "node \<Rightarrow> string" where
  "fileName n = (case kind n of SourceFile f \<Rightarrow> f | _ \<Rightarrow> [])"

definition endsWith :: "string \<Rightarrow> string \<Rightarrow> bool" where
  "endsWith t suffix =
     (length suffix \<le> length t \<and> drop (length t - length suffix) t = suffix)"

definition emptyRegistries :: StaticStyledComponents where
  "emptyRegistries =
     \<lparr>symbolToComponent = [], symbolsWithReferencesOutsideJsx = [],
      extendedComponentSymbols = [], reported = []\<rparr>"

text \<open>What a run leaves behind: the returned file, the registries with the diagnostics
  reported, and, as bookkeeping for the claims about passes, the \<^verbatim>\<open>isFirstPass\<close> flag
  of every traversal of the file that was made.\<close>

record run =
  transformed :: node
  registries :: StaticStyledComponents
  passes :: "bool list"

text \<open>A traversal of the source file answers one node, the file: a one-element result
  is that node, anything else cannot be a source file.\<close>

definition visitFile ::
  "collaborators \<Rightarrow> bool \<Rightarrow> bool \<Rightarrow> node \<Rightarrow> StaticStyledComponents
     \<Rightarrow> error + (node \<times> StaticStyledComponents)" where
  "visitFile c allShouldBeStatic isFirstPass file s =
     (case visitNodeAndChildren c allShouldBeStatic isFirstPass [] file s of
        Inl e \<Rightarrow> Inl e
      | Inr (result, s') \<Rightarrow> (case result of [f] \<Rightarrow> Inr (f, s') | _ \<Rightarrow> Inl TypeError))"

definition allStaticDirective :: "node \<Rightarrow> bool" where
  "allStaticDirective file =
     (find (\<lambda>st. hasJSDocTag st ''glitz-all-static'') (children file) \<noteq> None)"

definition transformer :: "collaborators \<Rightarrow> node \<Rightarrow> error + run" where
  "transformer c file =
     (if endsWith (fileName file) ''.tsx'' then
        (if find (\<lambda>st. hasJSDocTag st ''glitz-all-dynamic'') (children file) \<noteq> None then
           Inr \<lparr>transformed = file, registries = emptyRegistries, passes = []\<rparr>
         else
           (let allShouldBeStatic = allStaticDirective file
            in
            case visitFile c allShouldBeStatic True file emptyRegistries of
              Inl e \<Rightarrow> Inl e
            | Inr (firstPassTransformedFile, s1) \<Rightarrow>
                (case visitFile c allShouldBeStatic False firstPassTransformedFile s1 of
                   Inl e \<Rightarrow> Inl e
                 | Inr (transformedNode, s2) \<Rightarrow>
                     if symbolsWithReferencesOutsideJsx s2 \<noteq> [] then
                       (case visitFile c allShouldBeStatic False firstPassTransformedFile s2 of
                          Inl e \<Rightarrow> Inl e
                        | Inr (transformedAgain, s3) \<Rightarrow>
                            Inr \<lparr>transformed = transformedAgain, registries = s3,
                                 passes = [True, False, False]\<rparr>)
                     else
                       Inr \<lparr>transformed = transformedNode, registries = s2,
                            passes = [True, False]\<rparr>)))
      else Inr \<lparr>transformed = file, registries = emptyRegistries, passes = []\<rparr>)"

section \<open>Writing down source text\<close>

text \<open>Shorthands for the trees of the examples: \<^verbatim>\<open>const name = init\<close> with JSDoc tags
  and modifiers, calls, property accesses, self-closing elements, the \<^verbatim>\<open>css\<close>
  attribute, object literals. An example evaluator is a table from expressions to values;
  what is not in the table requires runtime.\<close>

definition ident :: "string \<Rightarrow> symbol option \<Rightarrow> node" where
  "ident t y = Node (Identifier t y) [] []"

definition call :: "node \<Rightarrow> node list \<Rightarrow> node" where
  "call f args = Node CallExpression [] (f # args)"

definition access :: "node \<Rightarrow> string \<Rightarrow> node" where
  "access obj nm = Node PropertyAccessExpression [] [obj, ident nm None]"

definition variableStatement :: "string list \<Rightarrow> modifier list \<Rightarrow> node \<Rightarrow> node \<Rightarrow> node" where
  "variableStatement tags mods nm init =
     Node (VariableStatement mods) tags
       [Node VariableDeclarationList [] [Node VariableDeclaration [] [nm, init]]]"

definition selfClosing :: "node \<Rightarrow> node list \<Rightarrow> node" where
  "selfClosing tag attrs = Node JsxSelfClosingElement [] [tag, Node JsxAttributes [] attrs]"

text \<open>\<^verbatim>\<open><tag attrs>kids</tag>\<close>.\<close>

definition element :: "node \<Rightarrow> node list \<Rightarrow> node list \<Rightarrow> node" where
  "element tag attrs kids =
     Node JsxElement []
       (Node JsxOpeningElement [] [tag, Node JsxAttributes [] attrs] # kids
        @ [Node JsxClosingElement [] [tag]])"

definition cssAttribute :: "node \<Rightarrow> node" where
  "cssAttribute obj = Node JsxAttribute [] [ident ''css'' None, Node JsxExpression [] [obj]]"

definition property :: "string \<Rightarrow> node \<Rightarrow> node" where
  "property k v = Node PropertyAssignment [] [ident k None, v]"

definition objectLiteral :: "node list \<Rightarrow> node" where
  "objectLiteral ps = Node ObjectLiteralExpression [] ps"

definition arrow :: "node \<Rightarrow> node" where
  "arrow body = Node ArrowFunction [] [body]"

definition evaluateTable :: "(node \<times> jsval) list \<Rightarrow> node \<Rightarrow> jsval" where
  "evaluateTable tbl n =
     (case map_of tbl n of Some v \<Rightarrow> v | None \<Rightarrow> VRequiresRuntime ''not a constant'' n)"

definition styleRed :: node where
  "styleRed = objectLiteral [property ''color'' (Node (StringLiteral ''red'') [] [])]"

definition styleFont :: node where
  "styleFont = objectLiteral [property ''fontSize'' (Node (NumericLiteral 12) [] [])]"

definition valueRed :: jsval where
  "valueRed = VObject [(''color'', VString ''red'')]"

definition valueFont :: jsval where
  "valueFont = VObject [(''fontSize'', VNumber 12)]"

text \<open>\<^verbatim>\<open>const Box = styled.div({color: 'red'}); const el = <Box css={{fontSize: 12}}/>;\<close>\<close>

definition boxFile :: node where
  "boxFile = Node (SourceFile ''box.tsx'') []
     [variableStatement [] [] (ident ''Box'' (Some 1))
        (call (access (ident ''styled'' (Some 0)) ''div'') [styleRed]),
      variableStatement [] [] (ident ''el'' (Some 2))
        (selfClosing (ident ''Box'' (Some 1)) [cssAttribute styleFont])]"

definition boxCollaborators :: collaborators where
  "boxCollaborators =
     \<lparr>evaluate = evaluateTable [(styleRed, valueRed), (styleFont, valueFont)],
      injectStyle = (\<lambda>v. ''a b''), diagnosticsReporter = True\<rparr>"

definition styleBold :: node where
  "styleBold = objectLiteral [property ''fontWeight'' (Node (StringLiteral ''bold'') [] [])]"

definition valueBold :: jsval where
  "valueBold = VObject [(''fontWeight'', VString ''bold'')]"

definition styledId :: node where
  "styledId = ident ''styled'' (Some 0)"

text \<open>An example style engine: the class name tells how many styles the stack held.\<close>

definition sampleInject :: "jsval \<Rightarrow> string" where
  "sampleInject v = (case v of VArray xs \<Rightarrow> replicate (length xs) (CHR ''a'') | _ \<Rightarrow> ''s'')"

definition sampleCollaborators :: collaborators where
  "sampleCollaborators =
     \<lparr>evaluate = evaluateTable
        [(styleRed, valueRed), (styleFont, valueFont), (styleBold, valueBold)],
      injectStyle = sampleInject, diagnosticsReporter = True\<rparr>"







text \<open>
  What the description calls the factory branch applying to a declaration
  \<^verbatim>\<open>const nm = init\<close>: the name looks like Pascal case, the evaluator folds the
  initializer to a static element or component, and every style passes
  \<^verbatim>\<open>isEvaluableStyle\<close>; then the component \<open>factoryRegisters\<close> gives is the one
  registered. \<open>factoryRaises\<close> says that the test of the styles exhausts the call stack
  instead.
\<close>

definition factoryRegisters :: "collaborators \<Rightarrow> string \<Rightarrow> node \<Rightarrow> StaticStyledComponent option" where
  "factoryRegisters c nm init =
     (if looksPascalCase nm then
        (case evaluate c init of
           VStatic e ss \<Rightarrow>
             if everyEvaluable ss = Inr True
             then Some \<lparr>componentName = nm, elementName = e, styles = ss\<rparr> else None
         | _ \<Rightarrow> None)
      else None)"

definition factoryRaises :: "collaborators \<Rightarrow> string \<Rightarrow> node \<Rightarrow> bool" where
  "factoryRaises c nm init =
     (looksPascalCase nm \<and>
      (case evaluate c init of VStatic e ss \<Rightarrow> everyEvaluable ss = Inl RangeError | _ \<Rightarrow> False))"

text \<open>\<^verbatim>\<open>const Box = createBox(); const el = <Box/>;\<close> with an evaluator that folds the
  call to a static element whose style holds a function inside an array.\<close>

definition valueFamily :: jsval where
  "valueFamily = VObject [(''fontFamily'', VArray [VFunction None])]"

definition factoryCall :: node where
  "factoryCall = call (ident ''createBox'' (Some 5)) []"



text \<open>\<^verbatim>\<open>{color: () => 'x'}\<close>, folded to an object whose function remembers its node.\<close>

definition styleDynamic :: node where
  "styleDynamic = objectLiteral [property ''color'' (arrow (Node (StringLiteral ''x'') [] []))]"

definition valueDynamic :: jsval where
  "valueDynamic =
     VObject [(''color'', VFunction (Some (arrow (Node (StringLiteral ''x'') [] []))))]"

definition dynamicCollaborators :: collaborators where
  "dynamicCollaborators =
     \<lparr>evaluate = evaluateTable [(styleRed, valueRed), (styleDynamic, valueDynamic)],
      injectStyle = sampleInject, diagnosticsReporter = True\<rparr>"


text \<open>Further example files. A declaration \<^verbatim>\<open>Box\<close>, a usage, and a call that is handed
  the component; a component \<^verbatim>\<open>Inner\<close> that another declaration extends, with a given
  arrow-function body; a usage with a \<^verbatim>\<open>css\<close> attribute that holds a function; a
  statement tagged \<^verbatim>\<open>@glitz-dynamic\<close>; a child of an exported parent; an exported
  function component.\<close>

definition paren :: "node \<Rightarrow> node" where
  "paren e = Node ParenthesizedExpression [] [e]"

definition expressionStatement :: "node \<Rightarrow> node" where
  "expressionStatement e = Node ExpressionStatement [] [e]"

definition boxDeclaration :: node where
  "boxDeclaration = variableStatement [] [] (ident ''Box'' (Some 1))
     (call (access styledId ''div'') [styleRed])"

definition escapeFile :: node where
  "escapeFile = Node (SourceFile ''escape.tsx'') []
     [boxDeclaration,
      variableStatement [] [] (ident ''el'' (Some 2)) (selfClosing (ident ''Box'' (Some 1)) []),
      expressionStatement (call (ident ''keep'' (Some 3)) [ident ''Box'' (Some 1)])]"

definition composedFile :: "node \<Rightarrow> node" where
  "composedFile body = Node (SourceFile ''composed.tsx'') []
     [variableStatement [] [] (ident ''Inner'' (Some 2)) (arrow body),
      variableStatement [] [] (ident ''Outer'' (Some 1))
        (call styledId [ident ''Inner'' (Some 2), styleRed])]"

definition styledDivUsage :: "node \<Rightarrow> node" where
  "styledDivUsage style = selfClosing (access styledId ''Div'') [cssAttribute style]"

definition dynamicCssFile :: "node \<Rightarrow> node" where
  "dynamicCssFile tag = Node (SourceFile ''css.tsx'') []
     [boxDeclaration,
      variableStatement [] [] (ident ''el'' (Some 2))
        (selfClosing tag [cssAttribute styleDynamic])]"

definition taggedFile :: node where
  "taggedFile = Node (SourceFile ''tagged.tsx'') []
     [variableStatement [''glitz-dynamic''] [] (ident ''el'' (Some 2))
        (selfClosing (access styledId ''Div'') [cssAttribute styleRed])]"

definition taggedDeclaration :: node where
  "taggedDeclaration = variableStatement [''glitz-dynamic''] [] (ident ''Box'' (Some 1))
     (call (access styledId ''div'') [styleRed])"

definition childCall :: node where
  "childCall = call styledId [ident ''Parent'' (Some 1), styleFont]"

definition exportedParent :: node where
  "exportedParent = variableStatement [] [ExportKeyword] (ident ''Parent'' (Some 1))
     (call (access styledId ''div'') [styleRed])"

definition exportedParentFile :: node where
  "exportedParentFile = Node (SourceFile ''child.tsx'') []
     [exportedParent, variableStatement [] [] (ident ''Child'' (Some 2)) childCall]"

definition childCollaborators :: collaborators where
  "childCollaborators =
     \<lparr>evaluate = evaluateTable [(styleRed, valueRed), (styleFont, valueFont),
        (childCall, VStatic ''div'' [valueRed, valueFont])],
      injectStyle = sampleInject, diagnosticsReporter = True\<rparr>"

text \<open>The declaration of \<^verbatim>\<open>Child\<close> alone, and an evaluator that folds its initializer
  to a static element one of whose styles is a requires-runtime result.\<close>

definition subcaseCollaborators :: collaborators where
  "subcaseCollaborators =
     \<lparr>evaluate = evaluateTable [(styleRed, valueRed), (styleFont, valueFont),
        (childCall, VStatic ''div'' [valueRed, VRequiresRuntime ''not a constant'' styleFont])],
      injectStyle = sampleInject, diagnosticsReporter = True\<rparr>"

definition childDeclaration :: node where
  "childDeclaration = variableStatement [] [] (ident ''Child'' (Some 2)) childCall"

definition exportedAppFile :: node where
  "exportedAppFile = Node (SourceFile ''app.tsx'') []
     [variableStatement [] [ExportKeyword] (ident ''App'' (Some 1))
        (arrow (selfClosing (access styledId ''Div'') [cssAttribute styleRed]))]"

text \<open>The run of the transform on the file of the first scenario with the example
  collaborators.\<close>

definition boxRun :: run where
  "boxRun =
     \<lparr>transformed = Node (SourceFile ''box.tsx'') []
        [variableStatement [] [] (ident ''el'' (Some 2))
           (selfClosing (ident ''div'' None) [createClassName ''a b''])],
      registries =
        \<lparr>symbolToComponent =
           [(Some 1, \<lparr>componentName = ''Box'', elementName = ''div'', styles = [valueRed]\<rparr>)],
         symbolsWithReferencesOutsideJsx = [], extendedComponentSymbols = [], reported = []\<rparr>,
      passes = [True, False]\<rparr>"

text \<open>A subtree without markup elements and without variable statements.\<close>

fun plain :: "node \<Rightarrow> bool" and plains :: "node list \<Rightarrow> bool" where
  "plain (Node k j cs) =
     (k \<noteq> JsxSelfClosingElement \<and> k \<noteq> JsxElement
      \<and> (case k of VariableStatement ms \<Rightarrow> False | _ \<Rightarrow> True) \<and> plains cs)"
| "plains [] = True"
| "plains (x # xs) = (plain x \<and> plains xs)"

section \<open>Unfolding the transform on given trees\<close>

declare visitNodeAndChildren.simps [simp del]

lemmas tree_defs = ident_def call_def access_def variableStatement_def selfClosing_def
  cssAttribute_def property_def objectLiteral_def arrow_def evaluateTable_def
  styleRed_def styleFont_def valueRed_def valueFont_def styleBold_def valueBold_def
  styledId_def sampleInject_def styleDynamic_def valueDynamic_def valueFamily_def
  factoryCall_def paren_def expressionStatement_def boxDeclaration_def styledDivUsage_def
  taggedDeclaration_def childCall_def exportedParent_def

lemmas syntax_defs = isIdentifier_def escapedText_def getSymbolAtLocation_def isSourceFile_def
  isVariableStatement_def modifiers_def textIsStyled_def firstChild_def arguments_def
  initializer_def declarations_def properties_def hasJSDocTag_def styledName_def
  attributeName_def isCssAttribute_def passThroughProps_def openingElement_def jsxChildren_def
  fileName_def endsWith_def

lemmas value_defs = isRequiresRuntimeResult_def requiresRuntimeResult_def isStaticObject_def
  isFunction_def typeofObject_def isArray_def truthy_def getCssData_def

lemmas report_defs = report_def reportRequiresRuntimeResult_def
  reportRequiresRuntimeResultWhenShouldBeStatic_def reportNotEvaluable_def
  reportTopLevelJsxInComposedComponent_def notEvaluableMessage_def

lemmas visit_defs = thenTry_def fallThrough_def register_def replaceComponentDeclarationNode_def
  directForm_def extensionForm_def factoryForm_def looksPascalCase_def toUpperCaseChar_def
  toLowerCaseChar_def visitVariableStatement_def getCssDataFromCssProp_def
  createIdentifier_def createClassName_def createJsxAttributes_def
  createJsxSelfClosingElement_def createJsxElement_def styledTag_def componentTag_def
  rewriteStyledTag_def rewriteComponentTag_def recordReference_def recordExtended_def
  isStaticComponentVariableUse_def isTopLevelJsxInComposedComponent_def visitNode_def
  visitFile_def allStaticDirective_def transformer_def emptyRegistries_def visitNodeAndChildren.simps Let_def

lemma toLowerCase_Div: "toLowerCase ''Div'' = ''div''"
  by code_simp

section \<open>Declarations in the first pass\<close>

text \<open>
  Facts several of the sections below rest on: the only exception of the style tests is
  the exhausted call stack; reports change no registry; what the factory form leaves
  behind; and the shape of the first-pass visit of a declaration \<^verbatim>\<open>const nm = f(...)\<close>.
\<close>

lemma recordReference_components:
  "symbolToComponent (recordReference anc n s) = symbolToComponent s"
  by (simp add: recordReference_def Let_def split: option.splits)

lemma recordExtended_components:
  "symbolToComponent (recordExtended fp n s) = symbolToComponent s"
  by (simp add: recordExtended_def split: option.splits list.splits)

lemma evaluable_error:
  "isEvaluableStyle v = Inl e \<Longrightarrow> e = RangeError"
  "evaluableValues xs = Inl e \<Longrightarrow> e = RangeError"
  "evaluableEntries kvs = Inl e \<Longrightarrow> e = RangeError"
  by (induction v and xs and kvs rule: isEvaluableStyle_evaluableValues_evaluableEntries.induct)
    (auto split: if_splits sum.splits)

lemma everyEvaluable_error: "everyEvaluable xs = Inl e \<Longrightarrow> e = RangeError"
  by (induction xs) (auto split: if_splits sum.splits dest: evaluable_error(1))

lemma reportResults_filtered:
  "\<exists>s'. reportResults c msg sev (filter isRequiresRuntimeResult rs) n s = Inr s'
     \<and> symbolToComponent s' = symbolToComponent s
     \<and> symbolsWithReferencesOutsideJsx s' = symbolsWithReferencesOutsideJsx s
     \<and> extendedComponentSymbols s' = extendedComponentSymbols s"
proof (induction rs arbitrary: s)
  case Nil
  then show ?case by simp
next
  case (Cons r rs)
  show ?case
  proof (cases r)
    case (VRequiresRuntime m origin)
    from Cons [of "report c \<lparr>message = msg, severity = sev, source = n, line = n,
                       innerDiagnostic = Some (m, origin)\<rparr> s"]
    show ?thesis
      using VRequiresRuntime by (auto simp: isRequiresRuntimeResult_def report_def)
  qed (use Cons in \<open>simp_all add: isRequiresRuntimeResult_def\<close>)
qed

lemma reportNotEvaluable_filtered:
  "\<exists>s'. reportNotEvaluable c sb msg (VArray (filter isRequiresRuntimeResult rs)) n s = Inr s'
     \<and> symbolToComponent s' = symbolToComponent s
     \<and> symbolsWithReferencesOutsideJsx s' = symbolsWithReferencesOutsideJsx s
     \<and> extendedComponentSymbols s' = extendedComponentSymbols s"
  using reportResults_filtered [of c _ _ rs n s]
  by (auto simp: reportNotEvaluable_def reportRequiresRuntimeResultWhenShouldBeStatic_def
      reportRequiresRuntimeResult_def)


text \<open>What the factory form leaves behind.\<close>

lemma factoryForm_outcome:
  "case factoryForm c sb n sy nm init s of
     Inl e \<Rightarrow> factoryRaises c nm init
   | Inr (ret, s') \<Rightarrow>
       ret = None
       \<and> symbolToComponent s' =
           (case factoryRegisters c nm init of
              None \<Rightarrow> symbolToComponent s
            | Some registered \<Rightarrow> AList.update sy registered (symbolToComponent s))
       \<and> symbolsWithReferencesOutsideJsx s' = symbolsWithReferencesOutsideJsx s
       \<and> extendedComponentSymbols s' = extendedComponentSymbols s"
proof (cases "looksPascalCase nm")
  case False
  then show ?thesis by (simp add: factoryForm_def factoryRegisters_def)
next
  case pascal: True
  show ?thesis
  proof (cases "evaluate c init")
    case (VStatic e ss)
    show ?thesis
    proof (cases "everyEvaluable ss")
      case (Inl err)
      with everyEvaluable_error [OF Inl] pascal VStatic show ?thesis
        by (simp add: factoryForm_def factoryRaises_def)
    next
      case (Inr ok)
      show ?thesis
      proof (cases ok)
        case True
        with Inr pascal VStatic show ?thesis
          by (simp add: factoryForm_def factoryRegisters_def register_def)
      next
        case False
        obtain s' where "reportNotEvaluable c sb notEvaluableMessage
            (VArray (filter isRequiresRuntimeResult ss)) n s = Inr s'"
          "symbolToComponent s' = symbolToComponent s"
          "symbolsWithReferencesOutsideJsx s' = symbolsWithReferencesOutsideJsx s"
          "extendedComponentSymbols s' = extendedComponentSymbols s"
          using reportNotEvaluable_filtered by blast
        with False Inr pascal VStatic show ?thesis
          by (simp add: factoryForm_def factoryRegisters_def fallThrough_def)
      qed
    qed
  qed (use pascal in \<open>simp_all add: factoryForm_def factoryRegisters_def\<close>)
qed

lemma visitNode_statement_first_pass:
  assumes "kind init = CallExpression"
  shows "visitNode c a True anc (variableStatement tags mods (ident nm sy) init) s =
     (if ''glitz-dynamic'' \<in> set tags \<or> ExportKeyword \<in> set mods
      then Inr (Some (variableStatement tags mods (ident nm sy) init), s)
      else
        (case thenTry
                (directForm c (''glitz-static'' \<in> set tags \<or> a)
                   (variableStatement tags mods (ident nm sy) init) sy nm init s)
                (\<lambda>s1. thenTry
                   (extensionForm c (''glitz-static'' \<in> set tags \<or> a)
                      (variableStatement tags mods (ident nm sy) init) sy nm init s1)
                   (\<lambda>s2. factoryForm c (''glitz-static'' \<in> set tags \<or> a)
                      (variableStatement tags mods (ident nm sy) init) sy nm init s2)) of
           Inl e \<Rightarrow> Inl e
         | Inr (ret, s') \<Rightarrow>
             (case ret of
                Some r \<Rightarrow> Inr (r, s')
              | None \<Rightarrow> Inr (Some (variableStatement tags mods (ident nm sy) init), s'))))"
  using assms
  by (auto simp: visitNode_def visitVariableStatement_def variableStatement_def ident_def
      hasJSDocTag_def isVariableStatement_def modifiers_def declarations_def isIdentifier_def
      getSymbolAtLocation_def escapedText_def recordReference_def recordExtended_def
      thenTry_def Let_def
      split: sum.splits prod.splits option.splits)


lemma directForm_identifier_callee:
  "directForm c sb n sy nm (call (ident t y) args) s = Inr (None, s)"
  by (simp add: directForm_def call_def ident_def firstChild_def)

section \<open>The scenario of a declaration and one usage\<close>

text \<open>
  C1. For the file \<^verbatim>\<open>const Box = styled.div({color: 'red'})\<close> followed by the usage
  \<^verbatim>\<open><Box css={{fontSize: 12}}/>\<close>, with no other reference to \<^verbatim>\<open>Box\<close>, and an
  evaluator that folds the two literals to their values, the transform returns the file
  without the declaration statement and with the usage replaced by
  \<^verbatim>\<open><div className="h"/>\<close>, where \<^verbatim>\<open>h\<close> is \<^verbatim>\<open>injectStyle\<close> of the stack
  \<^verbatim>\<open>[{color: 'red'}, {fontSize: 12}]\<close>, in that order.
\<close>

theorem box_declaration_removed_usage_replaced:
  assumes "evaluate c styleRed = valueRed"
    and "evaluate c styleFont = valueFont"
  shows "\<exists>r. transformer c boxFile = Inr r \<and> transformed r =
     Node (SourceFile ''box.tsx'') []
       [variableStatement [] [] (ident ''el'' (Some 2))
          (selfClosing (ident ''div'' None)
             [createClassName (injectStyle c (VArray [valueRed, valueFont]))])]"
  using assms
  by (simp add: boxFile_def tree_defs syntax_defs value_defs report_defs visit_defs)

theorem box_declaration_removed_usage_replaced_witness:
  "evaluate boxCollaborators styleRed = valueRed \<and>
   evaluate boxCollaborators styleFont = valueFont \<and>
   (\<exists>r. transformer boxCollaborators boxFile = Inr r \<and> transformed r =
     Node (SourceFile ''box.tsx'') []
       [variableStatement [] [] (ident ''el'' (Some 2))
          (selfClosing (ident ''div'' None) [createClassName ''a b''])])"
proof -
  have 1: "evaluate boxCollaborators styleRed = valueRed"
    by (simp add: boxCollaborators_def tree_defs)
  have 2: "evaluate boxCollaborators styleFont = valueFont"
    by (simp add: boxCollaborators_def tree_defs)
  have 3: "injectStyle boxCollaborators (VArray [valueRed, valueFont]) = ''a b''"
    by (simp add: boxCollaborators_def)
  show ?thesis
    using box_declaration_removed_usage_replaced [OF 1 2] 1 2 3 by simp
qed

section \<open>Stacks of extension declarations\<close>




section \<open>Functions inside a style\<close>


















section \<open>References outside markup\<close>

text \<open>
  C4, evaluated where the code departs from it. In
  \<^verbatim>\<open>const Box = styled.div({color: 'red'}); const el = <Box/>; keep(Box);\<close> the binding
  \<^verbatim>\<open>Box\<close> ends up in \<^verbatim>\<open>symbolsWithReferencesOutsideJsx\<close> and its declaration stays,
  with one diagnostic; but the self-closing usage, visited in the first pass before the
  call, has been rewritten to \<^verbatim>\<open><div className=.../>\<close> and stays rewritten: the
  branch for self-closing usages of a component is not under \<^verbatim>\<open>if (!isFirstPass)\<close>.
\<close>

theorem escape_usage_rewritten_in_first_pass:
  "map_sum id transformed (transformer sampleCollaborators escapeFile)
     = Inr (Node (SourceFile ''escape.tsx'') []
         [boxDeclaration,
          variableStatement [] [] (ident ''el'' (Some 2))
            (selfClosing (ident ''div'' None) [createClassName ''a'']),
          expressionStatement (call (ident ''keep'' (Some 3)) [ident ''Box'' (Some 1)])])
   \<and> map_sum id (map fst \<circ> symbolsWithReferencesOutsideJsx \<circ> registries)
        (transformer sampleCollaborators escapeFile) = Inr [Some 1]
   \<and> map_sum id (length \<circ> reported \<circ> registries)
        (transformer sampleCollaborators escapeFile) = Inr 1"
  by (simp add: escapeFile_def sampleCollaborators_def tree_defs syntax_defs value_defs
      report_defs visit_defs toLowerCase_Div)

section \<open>The direct return of an extended component\<close>

text \<open>
  C5, evaluated where the code departs from it. \<^verbatim>\<open>Inner\<close> is extended by
  \<^verbatim>\<open>const Outer = styled(Inner, {...})\<close>. When the arrow function's body is the markup
  in parentheses, \<^verbatim>\<open>() => (<styled.Div css={{fontSize: 12}}/>)\<close>, the markup is rewritten:
  the loop over parenthesized expressions tests the markup node, never its parent. Without
  the parentheses the same markup is left alone.
\<close>

theorem parenthesized_return_rewritten:
  "map_sum id transformed
      (transformer sampleCollaborators (composedFile (paren (styledDivUsage styleFont))))
     = Inr (composedFile (paren (selfClosing (ident ''div'' None) [createClassName ''s''])))
   \<and> map_sum id transformed
      (transformer sampleCollaborators (composedFile (styledDivUsage styleFont)))
     = Inr (composedFile (styledDivUsage styleFont))
   \<and> map_sum id (extendedComponentSymbols \<circ> registries)
      (transformer sampleCollaborators (composedFile (paren (styledDivUsage styleFont))))
     = Inr [2]"
  by (simp add: composedFile_def sampleCollaborators_def tree_defs syntax_defs value_defs
      report_defs visit_defs toLowerCase_Div)

section \<open>A css attribute that cannot be evaluated\<close>

text \<open>
  C6, evaluated where the code departs from it. For a registered component \<^verbatim>\<open>Box\<close>, the
  usage \<^verbatim>\<open><Box css={{color: () => 'x'}}/>\<close> is reported (one info diagnostic) and
  nevertheless rewritten, to the component's own styles, the \<^verbatim>\<open>css\<close> attribute dropped;
  the same attribute on \<^verbatim>\<open><styled.Div .../>\<close> leaves the usage as authored.
\<close>

theorem dynamic_css_dropped:
  "map_sum id transformed
      (transformer dynamicCollaborators (dynamicCssFile (ident ''Box'' (Some 1))))
     = Inr (Node (SourceFile ''css.tsx'') []
         [variableStatement [] [] (ident ''el'' (Some 2))
            (selfClosing (ident ''div'' None) [createClassName ''a''])])
   \<and> map_sum id (map message \<circ> reported \<circ> registries)
      (transformer dynamicCollaborators (dynamicCssFile (ident ''Box'' (Some 1))))
     = Inr [''css prop could not be statically evaluated'']
   \<and> map_sum id transformed
      (transformer dynamicCollaborators (dynamicCssFile (access styledId ''Div'')))
     = Inr (Node (SourceFile ''css.tsx'') []
         [variableStatement [] [] (ident ''el'' (Some 2))
            (selfClosing (access styledId ''Div'') [cssAttribute styleDynamic])])"
  by (simp add: dynamicCssFile_def dynamicCollaborators_def tree_defs syntax_defs value_defs
      report_defs visit_defs toLowerCase_Div)

section \<open>The number of passes\<close>

text \<open>
  C7. A run returns in these ways and no other. When the file is not \<^verbatim>\<open>.tsx\<close>, or
  one of its statements is marked \<^verbatim>\<open>glitz-all-dynamic\<close>, no pass is made and the
  file is returned as it is. Otherwise the first pass and the second pass are made, and a
  third pass, a second-pass traversal of the first pass's file again, is made exactly
  when \<^verbatim>\<open>symbolsWithReferencesOutsideJsx\<close> is not empty after the second pass; never
  a fourth. The run returns if and only if every pass it makes returns, and what it
  returns is what its last pass returned.
\<close>

theorem at_most_one_extra_pass:
  "transformer c file = Inr r \<longleftrightarrow>
     (if endsWith (fileName file) ''.tsx''
         \<and> find (\<lambda>st. hasJSDocTag st ''glitz-all-dynamic'') (children file) = None
      then
        (\<exists>f1 s1 f2 s2.
           visitFile c (allStaticDirective file) True file emptyRegistries = Inr (f1, s1) \<and>
           visitFile c (allStaticDirective file) False f1 s1 = Inr (f2, s2) \<and>
           (if symbolsWithReferencesOutsideJsx s2 = [] then
              r = \<lparr>transformed = f2, registries = s2, passes = [True, False]\<rparr>
            else
              (\<exists>f3 s3. visitFile c (allStaticDirective file) False f1 s2 = Inr (f3, s3) \<and>
                 r = \<lparr>transformed = f3, registries = s3, passes = [True, False, False]\<rparr>)))
      else r = \<lparr>transformed = file, registries = emptyRegistries, passes = []\<rparr>)"
proof (cases "endsWith (fileName file) ''.tsx''
         \<and> find (\<lambda>st. hasJSDocTag st ''glitz-all-dynamic'') (children file) = None")
  case False
  then show ?thesis
    by (auto simp: transformer_def)
next
  case True
  show ?thesis
  proof (cases "visitFile c (allStaticDirective file) True file emptyRegistries")
    case (Inl e)
    with True show ?thesis by (simp add: transformer_def)
  next
    case first: (Inr p1)
    obtain f1 s1 where p1: "p1 = (f1, s1)" by (cases p1)
    show ?thesis
    proof (cases "visitFile c (allStaticDirective file) False f1 s1")
      case (Inl e)
      with True first p1 show ?thesis by (simp add: transformer_def)
    next
      case second: (Inr p2)
      obtain f2 s2 where p2: "p2 = (f2, s2)" by (cases p2)
      show ?thesis
      proof (cases "symbolsWithReferencesOutsideJsx s2 = []")
        case empty: True
        with True first p1 second p2 show ?thesis
          by (auto simp: transformer_def)
      next
        case nonempty: False
        show ?thesis
        proof (cases "visitFile c (allStaticDirective file) False f1 s2")
          case (Inl e)
          with True first p1 second p2 nonempty show ?thesis
            by (simp add: transformer_def)
        next
          case third: (Inr p3)
          obtain f3 s3 where p3: "p3 = (f3, s3)" by (cases p3)
          with True first p1 second p2 nonempty third show ?thesis
            by (auto simp: transformer_def)
        qed
      qed
    qed
  qed
qed

theorem at_most_one_extra_pass_witness:
  "(\<exists>r f1 s1 f2 s2.
      transformer sampleCollaborators escapeFile = Inr r
      \<and> passes r = [True, False, False]
      \<and> visitFile sampleCollaborators False True escapeFile emptyRegistries = Inr (f1, s1)
      \<and> visitFile sampleCollaborators False False f1 s1 = Inr (f2, s2)
      \<and> symbolsWithReferencesOutsideJsx s2 \<noteq> []
      \<and> visitFile sampleCollaborators False False f1 s2 = Inr (transformed r, registries r))
   \<and> transformer boxCollaborators boxFile = Inr boxRun
   \<and> passes boxRun = [True, False]
   \<and> symbolsWithReferencesOutsideJsx (registries boxRun) = []
   \<and> (\<exists>f1 s1. visitFile boxCollaborators False True boxFile emptyRegistries = Inr (f1, s1)
          \<and> visitFile boxCollaborators False False f1 s1
               = Inr (transformed boxRun, registries boxRun))
   \<and> transformer sampleCollaborators (Node (SourceFile ''notes.ts'') [] [boxDeclaration])
       = Inr \<lparr>transformed = Node (SourceFile ''notes.ts'') [] [boxDeclaration],
              registries = emptyRegistries, passes = []\<rparr>"
proof -
  have escape: "\<exists>r f1 s1 f2 s2.
      transformer sampleCollaborators escapeFile = Inr r
      \<and> passes r = [True, False, False]
      \<and> visitFile sampleCollaborators False True escapeFile emptyRegistries = Inr (f1, s1)
      \<and> visitFile sampleCollaborators False False f1 s1 = Inr (f2, s2)
      \<and> symbolsWithReferencesOutsideJsx s2 \<noteq> []
      \<and> visitFile sampleCollaborators False False f1 s2 = Inr (transformed r, registries r)"
  proof -
    have "\<exists>r. transformer sampleCollaborators escapeFile = Inr r
        \<and> passes r = [True, False, False]"
      by (simp add: escapeFile_def sampleCollaborators_def tree_defs syntax_defs value_defs
          report_defs visit_defs)
    then obtain r where h: "transformer sampleCollaborators escapeFile = Inr r"
      and p: "passes r = [True, False, False]"
      by blast
    have t: "endsWith (fileName escapeFile) ''.tsx''
         \<and> find (\<lambda>st. hasJSDocTag st ''glitz-all-dynamic'') (children escapeFile) = None"
      by (simp add: escapeFile_def tree_defs syntax_defs)
    have a: "allStaticDirective escapeFile = False"
      by (simp add: escapeFile_def allStaticDirective_def tree_defs syntax_defs)
    from at_most_one_extra_pass [THEN iffD1, OF h] t
    obtain f1 s1 f2 s2 where
      "visitFile sampleCollaborators (allStaticDirective escapeFile) True escapeFile
         emptyRegistries = Inr (f1, s1)"
      and "visitFile sampleCollaborators (allStaticDirective escapeFile) False f1 s1
         = Inr (f2, s2)"
      and "if symbolsWithReferencesOutsideJsx s2 = [] then
              r = \<lparr>transformed = f2, registries = s2, passes = [True, False]\<rparr>
            else
              (\<exists>f3 s3. visitFile sampleCollaborators (allStaticDirective escapeFile) False f1 s2
                   = Inr (f3, s3) \<and>
                 r = \<lparr>transformed = f3, registries = s3, passes = [True, False, False]\<rparr>)"
      by auto
    then have
      1: "visitFile sampleCollaborators False True escapeFile emptyRegistries = Inr (f1, s1)"
      and 2: "visitFile sampleCollaborators False False f1 s1 = Inr (f2, s2)"
      and 3: "if symbolsWithReferencesOutsideJsx s2 = [] then
              r = \<lparr>transformed = f2, registries = s2, passes = [True, False]\<rparr>
            else
              (\<exists>f3 s3. visitFile sampleCollaborators False False f1 s2 = Inr (f3, s3) \<and>
                 r = \<lparr>transformed = f3, registries = s3, passes = [True, False, False]\<rparr>)"
      unfolding a by this+
    have ne: "symbolsWithReferencesOutsideJsx s2 \<noteq> []"
    proof
      assume "symbolsWithReferencesOutsideJsx s2 = []"
      with 3 have "r = \<lparr>transformed = f2, registries = s2, passes = [True, False]\<rparr>"
        by simp
      then have "passes r = [True, False]"
        by simp
      with p show False by simp
    qed
    with 3 obtain f3 s3 where
      "visitFile sampleCollaborators False False f1 s2 = Inr (f3, s3)"
      "r = \<lparr>transformed = f3, registries = s3, passes = [True, False, False]\<rparr>"
      by auto
    then have "visitFile sampleCollaborators False False f1 s2
        = Inr (transformed r, registries r)"
      by simp
    with h p 1 2 ne show ?thesis by blast
  qed
  have box: "transformer boxCollaborators boxFile = Inr boxRun"
    by (simp add: boxFile_def boxCollaborators_def boxRun_def tree_defs syntax_defs value_defs
        report_defs visit_defs)
  have bp: "passes boxRun = [True, False]"
    "symbolsWithReferencesOutsideJsx (registries boxRun) = []"
    by (simp_all add: boxRun_def)
  have bt: "endsWith (fileName boxFile) ''.tsx''
         \<and> find (\<lambda>st. hasJSDocTag st ''glitz-all-dynamic'') (children boxFile) = None"
    by (simp add: boxFile_def tree_defs syntax_defs)
  have ba: "allStaticDirective boxFile = False"
    by (simp add: boxFile_def allStaticDirective_def tree_defs syntax_defs)
  from at_most_one_extra_pass [THEN iffD1, OF box] bt
  obtain f1 s1 f2 s2 where
    "visitFile boxCollaborators (allStaticDirective boxFile) True boxFile emptyRegistries
       = Inr (f1, s1)"
    and "visitFile boxCollaborators (allStaticDirective boxFile) False f1 s1 = Inr (f2, s2)"
    and "if symbolsWithReferencesOutsideJsx s2 = [] then
              boxRun = \<lparr>transformed = f2, registries = s2, passes = [True, False]\<rparr>
            else
              (\<exists>f3 s3. visitFile boxCollaborators (allStaticDirective boxFile) False f1 s2
                   = Inr (f3, s3) \<and>
                 boxRun = \<lparr>transformed = f3, registries = s3,
                           passes = [True, False, False]\<rparr>)"
    by auto
  then have
    b1: "visitFile boxCollaborators False True boxFile emptyRegistries = Inr (f1, s1)"
    and b2: "visitFile boxCollaborators False False f1 s1 = Inr (f2, s2)"
    and b3: "if symbolsWithReferencesOutsideJsx s2 = [] then
              boxRun = \<lparr>transformed = f2, registries = s2, passes = [True, False]\<rparr>
            else
              (\<exists>f3 s3. visitFile boxCollaborators False False f1 s2 = Inr (f3, s3) \<and>
                 boxRun = \<lparr>transformed = f3, registries = s3,
                           passes = [True, False, False]\<rparr>)"
    unfolding ba by this+
  have "boxRun = \<lparr>transformed = f2, registries = s2, passes = [True, False]\<rparr>"
  proof (cases "symbolsWithReferencesOutsideJsx s2 = []")
    case True
    with b3 show ?thesis by simp
  next
    case False
    with b3 obtain f3 s3 where
      "boxRun = \<lparr>transformed = f3, registries = s3, passes = [True, False, False]\<rparr>"
      by auto
    then have "passes boxRun = [True, False, False]"
      by (metis run.select_convs(3))
    with bp show ?thesis by simp
  qed
  then have "f2 = transformed boxRun" "s2 = registries boxRun"
    by (metis run.select_convs(1), metis run.select_convs(2))
  with b1 b2 have boxpasses: "\<exists>f1 s1.
      visitFile boxCollaborators False True boxFile emptyRegistries = Inr (f1, s1)
      \<and> visitFile boxCollaborators False False f1 s1
           = Inr (transformed boxRun, registries boxRun)"
    by blast
  have untouched: "transformer sampleCollaborators (Node (SourceFile ''notes.ts'') [] [boxDeclaration])
       = Inr \<lparr>transformed = Node (SourceFile ''notes.ts'') [] [boxDeclaration],
              registries = emptyRegistries, passes = []\<rparr>"
    using at_most_one_extra_pass [of sampleCollaborators
        "Node (SourceFile ''notes.ts'') [] [boxDeclaration]"
        "\<lparr>transformed = Node (SourceFile ''notes.ts'') [] [boxDeclaration],
              registries = emptyRegistries, passes = []\<rparr>"]
    by (simp add: fileName_def endsWith_def)
  from escape box bp boxpasses untouched show ?thesis by (intro conjI)
qed

section \<open>The dynamic directive on a node\<close>

text \<open>
  C8, as stated, fails: the directive exempts the tagged node, not the subtree under it.
  In \<^verbatim>\<open>/** @glitz-dynamic */ const el = <styled.Div css={{color: 'red'}}/>;\<close> the
  markup under the tagged statement is replaced.
\<close>

theorem dynamic_descendant_rewritten:
  "hasJSDocTag (hd (children taggedFile)) ''glitz-dynamic''
   \<and> map_sum id transformed (transformer sampleCollaborators taggedFile)
     = Inr (Node (SourceFile ''tagged.tsx'') []
         [variableStatement [''glitz-dynamic''] [] (ident ''el'' (Some 2))
            (selfClosing (ident ''div'' None) [createClassName ''s''])])"
  by (simp add: sampleCollaborators_def taggedFile_def tree_defs syntax_defs value_defs
      report_defs visit_defs toLowerCase_Div)

text \<open>
  C8, amended. For every node carrying the \<^verbatim>\<open>@glitz-dynamic\<close> tag, \<^verbatim>\<open>visitNode\<close>
  returns the node itself and leaves the registries as they were, in every pass and
  whatever the node is: a tagged declaration is neither registered nor removed, a tagged
  usage is not replaced. The traversal then visits the children of the tagged node as it
  visits any others.
\<close>

theorem dynamic_node_returned:
  assumes "hasJSDocTag n ''glitz-dynamic''"
  shows "visitNode c a fp anc n s = Inr (Some n, s)
       \<and> visitNodeAndChildren c a fp anc n s =
           (case visitEachChild c a fp (n # anc) (children n) s of
              Inl e \<Rightarrow> Inl e
            | Inr (cs, s') \<Rightarrow> Inr ([Node (kind n) (jsDoc n) cs], s'))"
  using assms by (simp add: visitNode_def visitNodeAndChildren.simps)

theorem dynamic_node_returned_witness:
  "hasJSDocTag taggedDeclaration ''glitz-dynamic''
   \<and> visitNode sampleCollaborators False True [] taggedDeclaration emptyRegistries
       = Inr (Some taggedDeclaration, emptyRegistries)
   \<and> visitNode sampleCollaborators False False [] taggedDeclaration emptyRegistries
       = Inr (Some taggedDeclaration, emptyRegistries)"
proof -
  have h: "hasJSDocTag taggedDeclaration ''glitz-dynamic''"
    by (simp add: taggedDeclaration_def variableStatement_def hasJSDocTag_def)
  show ?thesis
    using dynamic_node_returned [OF h, of sampleCollaborators False True "[]" emptyRegistries]
      dynamic_node_returned [OF h, of sampleCollaborators False False "[]" emptyRegistries] h
    by simp
qed

section \<open>An extension whose parent is not registered\<close>

lemma reportResults_components:
  "reportResults c msg sev rs n s = Inr s' \<Longrightarrow> symbolToComponent s' = symbolToComponent s"
proof (induction rs arbitrary: s)
  case Nil
  then show ?case by simp
next
  case (Cons r rs)
  then show ?case
    by (cases r) (auto simp: report_def split: if_splits)
qed

lemma reportNotEvaluable_components:
  "reportNotEvaluable c sb msg v n s = Inr s' \<Longrightarrow> symbolToComponent s' = symbolToComponent s"
  by (auto simp: reportNotEvaluable_def reportRequiresRuntimeResultWhenShouldBeStatic_def
      reportRequiresRuntimeResult_def split: if_splits dest: reportResults_components)

lemma reportReferences_components:
  "reportReferences c nm sb refs s = Inr s' \<Longrightarrow> symbolToComponent s' = symbolToComponent s"
proof (induction refs arbitrary: s)
  case Nil
  then show ?case by simp
next
  case (Cons r refs)
  then show ?case
    by (cases r) (auto simp: report_def split: if_splits)
qed

lemma replaceComponentDeclarationNode_components:
  "replaceComponentDeclarationNode c sy nm n s sb = Inr (r, s')
     \<Longrightarrow> symbolToComponent s' = symbolToComponent s"
  by (auto simp: replaceComponentDeclarationNode_def
      split: option.splits if_splits sum.splits dest: reportReferences_components)

lemma getCssDataFromCssProp_components:
  "getCssDataFromCssProp c a n s = Inr (r, s') \<Longrightarrow> symbolToComponent s' = symbolToComponent s"
  by (auto simp: getCssDataFromCssProp_def fallThrough_def
      split: option.splits list.splits if_splits sum.splits
      dest: reportNotEvaluable_components)

lemma rewriteStyledTag_components:
  "rewriteStyledTag c a anc n holder build s = Inr (r, s')
     \<Longrightarrow> symbolToComponent s' = symbolToComponent s"
  by (auto simp: rewriteStyledTag_def reportTopLevelJsxInComposedComponent_def report_def
      split: option.splits if_splits sum.splits prod.splits
      dest: getCssDataFromCssProp_components)

lemma rewriteComponentTag_components:
  "rewriteComponentTag c a anc n holder build s = Inr (r, s')
     \<Longrightarrow> symbolToComponent s' = symbolToComponent s"
  by (auto simp: rewriteComponentTag_def reportTopLevelJsxInComposedComponent_def report_def
      Let_def
      split: option.splits if_splits sum.splits prod.splits
      dest: getCssDataFromCssProp_components)

lemma visitVariableStatement_later_components:
  "visitVariableStatement c a False n s = Inr (r, s')
     \<Longrightarrow> symbolToComponent s' = symbolToComponent s"
  by (auto simp: visitVariableStatement_def Let_def
      split: list.splits if_splits sum.splits prod.splits
      dest: replaceComponentDeclarationNode_components)

lemma thenTry_cases:
  "thenTry r f = Inr (x, s') \<Longrightarrow>
     r = Inr (x, s') \<or> (\<exists>s1. r = Inr (None, s1) \<and> f s1 = Inr (x, s'))"
  by (auto simp: thenTry_def split: sum.splits option.splits prod.splits)

lemma later_pass_keeps_components:
  assumes "visitNode c a False anc n s = Inr (r, s')"
  shows "symbolToComponent s' = symbolToComponent s"
proof (cases "hasJSDocTag n ''glitz-dynamic''")
  case True
  with assms show ?thesis by (simp add: visitNode_def)
next
  case False
  let ?s0 = "recordExtended False n (recordReference anc n s)"
  have s0: "symbolToComponent ?s0 = symbolToComponent s"
    by (simp add: recordReference_components recordExtended_components)
  from assms False obtain x where
    "thenTry (visitVariableStatement c a False n ?s0)
       (\<lambda>s1. thenTry
          (if kind n = JsxSelfClosingElement
           then rewriteStyledTag c a anc n n createJsxSelfClosingElement s1
           else Inr (None, s1))
          (\<lambda>s2. thenTry
             (if kind n = JsxElement
              then thenTry
                     (rewriteStyledTag c a anc n (openingElement n)
                        (\<lambda>tag props h. createJsxElement tag props h (jsxChildren n)) s2)
                     (\<lambda>s3. rewriteComponentTag c a anc n (openingElement n)
                        (\<lambda>tag props h. createJsxElement tag props h (jsxChildren n)) s3)
              else Inr (None, s2))
             (\<lambda>s4.
                if kind n = JsxSelfClosingElement
                then rewriteComponentTag c a anc n n createJsxSelfClosingElement s4
                else Inr (None, s4)))) = Inr (x, s')"
    by (auto simp: visitNode_def split: sum.splits prod.splits option.splits)
  then have "symbolToComponent s' = symbolToComponent ?s0"
    by (auto dest!: thenTry_cases visitVariableStatement_later_components
          rewriteStyledTag_components rewriteComponentTag_components
        split: if_splits)
  with s0 show ?thesis by simp
qed

lemma later_declaration_kept:
  assumes "map_of (symbolToComponent s2) sy = None"
    and "map_of (symbolsWithReferencesOutsideJsx s2) sy = None"
  shows "visitNode c a False anc (variableStatement tags mods (ident nm sy) init) s2
     = Inr (Some (variableStatement tags mods (ident nm sy) init), s2)"
proof -
  let ?n = "variableStatement tags mods (ident nm sy) init"
  have v: "visitVariableStatement c a False ?n s2 = Inr (None, s2)
      \<or> visitVariableStatement c a False ?n s2 = Inr (Some (Some ?n), s2)"
    using assms
    by (simp add: visitVariableStatement_def variableStatement_def isVariableStatement_def
        modifiers_def declarations_def ident_def isIdentifier_def getSymbolAtLocation_def
        escapedText_def replaceComponentDeclarationNode_def Let_def)
  have k: "kind ?n \<noteq> JsxSelfClosingElement" "kind ?n \<noteq> JsxElement"
    "kind ?n \<noteq> CallExpression" "\<not> isIdentifier ?n"
    by (simp_all add: variableStatement_def isIdentifier_def)
  from v show ?thesis
    using k
    by (auto simp: visitNode_def recordReference_def recordExtended_def thenTry_def)
qed

text \<open>
  C9, as stated, fails: a child whose parent is not registered can still be registered,
  through the factory form. In
  \<^verbatim>\<open>export const Parent = styled.div({color: 'red'}); const Child = styled(Parent, {fontSize: 12});\<close>
  the exported parent is never registered; with an evaluator that folds the initializer of
  \<^verbatim>\<open>Child\<close> to a static component, \<^verbatim>\<open>Child\<close> is registered and its declaration
  removed.
\<close>

theorem unregistered_parent_registered_by_factory:
  "map_sum id (symbolToComponent \<circ> registries) (transformer childCollaborators exportedParentFile)
     = Inr [(Some 2, \<lparr>componentName = ''Child'', elementName = ''div'',
                      styles = [valueRed, valueFont]\<rparr>)]
   \<and> map_sum id transformed (transformer childCollaborators exportedParentFile)
     = Inr (Node (SourceFile ''child.tsx'') [] [exportedParent])"
  by (simp add: exportedParentFile_def childCollaborators_def tree_defs syntax_defs value_defs
      report_defs visit_defs toLowerCase_Div)

text \<open>
  C9, amended. For an extension declaration \<^verbatim>\<open>const X = styled(Parent, {...})\<close>
  whose parent is not in \<^verbatim>\<open>symbolToComponent\<close> when the declaration is visited, the
  extension form registers nothing and falls through. The first-pass visit returns the
  statement itself, and \<^verbatim>\<open>X\<close> is not registered unless the factory branch applies
  with evaluable styles and registers it; the other registries stay as they were, and so
  do the diagnostics unless the name looks like Pascal case and the initializer is folded
  to a static element or component; the visit raises only when the factory branch's test
  of the styles does. In a later pass the statement of a name that is neither registered
  nor referenced outside markup is returned as it is, all registries untouched; and no
  visit of a later pass, of any node, registers a component.
\<close>

theorem extension_needs_registered_parent:
  assumes unregistered: "map_of (symbolToComponent s) (getSymbolAtLocation parentNode) = None"
    and later: "map_of (symbolToComponent s2) sy = None"
      "map_of (symbolsWithReferencesOutsideJsx s2) sy = None"
  shows "extensionForm c sb n sy nm (call callee [parentNode, styleObject]) s = Inr (None, s)
   \<and> (case visitNode c a True anc
              (variableStatement tags mods (ident nm sy)
                 (call (ident ''styled'' y) [parentNode, styleObject])) s of
         Inl e \<Rightarrow> factoryRaises c nm (call (ident ''styled'' y) [parentNode, styleObject])
       | Inr (r, s') \<Rightarrow>
           r = Some (variableStatement tags mods (ident nm sy)
                       (call (ident ''styled'' y) [parentNode, styleObject]))
           \<and> (symbolToComponent s' = symbolToComponent s
              \<or> (\<exists>registered.
                    factoryRegisters c nm (call (ident ''styled'' y) [parentNode, styleObject])
                      = Some registered
                    \<and> symbolToComponent s' = AList.update sy registered (symbolToComponent s)))
           \<and> symbolsWithReferencesOutsideJsx s' = symbolsWithReferencesOutsideJsx s
           \<and> extendedComponentSymbols s' = extendedComponentSymbols s
           \<and> ((looksPascalCase nm
                \<and> isStaticObject
                     (evaluate c (call (ident ''styled'' y) [parentNode, styleObject])))
              \<or> s' = s))
   \<and> visitNode c a False anc
         (variableStatement tags mods (ident nm sy)
            (call (ident ''styled'' y) [parentNode, styleObject])) s2
       = Inr (Some (variableStatement tags mods (ident nm sy)
                      (call (ident ''styled'' y) [parentNode, styleObject])), s2)
   \<and> (\<forall>anc' n' s3 r s4. visitNode c a False anc' n' s3 = Inr (r, s4)
          \<longrightarrow> symbolToComponent s4 = symbolToComponent s3)"
proof -
  let ?init = "call (ident ''styled'' y) [parentNode, styleObject]"
  let ?n = "variableStatement tags mods (ident nm sy) ?init"
  let ?sb = "''glitz-static'' \<in> set tags \<or> a"
  have ext: "extensionForm c sb n sy nm (call callee [parentNode, styleObject]) s = Inr (None, s)"
    for sb n callee
    using unregistered
    by (simp add: extensionForm_def call_def firstChild_def arguments_def)
  have k: "kind ?init = CallExpression" by (simp add: call_def)
  have d: "directForm c ?sb ?n sy nm ?init s = Inr (None, s)"
    by (rule directForm_identifier_callee)
  note f = factoryForm_outcome [where c = c and sb = ?sb and n = ?n and sy = sy and nm = nm
      and init = ?init and s = s]
  have nf: "factoryForm c ?sb ?n sy nm ?init s = Inr (None, s)"
    if "\<not> (looksPascalCase nm \<and> isStaticObject (evaluate c ?init))"
    using that by (auto simp: factoryForm_def isStaticObject_def split: jsval.splits)
  have first: "case visitNode c a True anc ?n s of
         Inl e \<Rightarrow> factoryRaises c nm ?init
       | Inr (r, s') \<Rightarrow>
           r = Some ?n
           \<and> (symbolToComponent s' = symbolToComponent s
              \<or> (\<exists>registered. factoryRegisters c nm ?init = Some registered
                    \<and> symbolToComponent s' = AList.update sy registered (symbolToComponent s)))
           \<and> symbolsWithReferencesOutsideJsx s' = symbolsWithReferencesOutsideJsx s
           \<and> extendedComponentSymbols s' = extendedComponentSymbols s
           \<and> ((looksPascalCase nm \<and> isStaticObject (evaluate c ?init)) \<or> s' = s)"
    using d ext [of ?sb ?n "ident ''styled'' y"] f nf
    by (auto simp: visitNode_statement_first_pass [OF k] thenTry_def
        split: sum.splits prod.splits option.splits)
  have second: "visitNode c a False anc ?n s2 = Inr (Some ?n, s2)"
    by (rule later_declaration_kept [OF later])
  show ?thesis
    using ext first second later_pass_keeps_components by blast
qed

theorem extension_needs_registered_parent_witness:
  "map_of (symbolToComponent emptyRegistries) (getSymbolAtLocation (ident ''Parent'' (Some 1)))
     = None
   \<and> map_of (symbolsWithReferencesOutsideJsx emptyRegistries) (Some 2) = None
   \<and> looksPascalCase ''Child''
   \<and> evaluate subcaseCollaborators
        (call (ident ''styled'' (Some 0)) [ident ''Parent'' (Some 1), styleFont])
       = VStatic ''div'' [valueRed, VRequiresRuntime ''not a constant'' styleFont]
   \<and> factoryRegisters subcaseCollaborators ''Child''
        (call (ident ''styled'' (Some 0)) [ident ''Parent'' (Some 1), styleFont]) = None
   \<and> map_sum id fst
        (visitNode subcaseCollaborators False True [] childDeclaration emptyRegistries)
       = Inr (Some childDeclaration)
   \<and> map_sum id (symbolToComponent \<circ> snd)
        (visitNode subcaseCollaborators False True [] childDeclaration emptyRegistries)
       = Inr []
   \<and> map_sum id (length \<circ> reported \<circ> snd)
        (visitNode subcaseCollaborators False True [] childDeclaration emptyRegistries)
       = Inr 1
   \<and> visitNode subcaseCollaborators False False [] childDeclaration emptyRegistries
       = Inr (Some childDeclaration, emptyRegistries)"
proof -
  have 1: "map_of (symbolToComponent emptyRegistries)
      (getSymbolAtLocation (ident ''Parent'' (Some 1))) = None"
    by (simp add: emptyRegistries_def)
  have 2: "map_of (symbolToComponent emptyRegistries) (Some 2) = None"
    by (simp add: emptyRegistries_def)
  have 3: "map_of (symbolsWithReferencesOutsideJsx emptyRegistries) (Some 2) = None"
    by (simp add: emptyRegistries_def)
  have 4: "looksPascalCase ''Child''"
    by (simp add: looksPascalCase_def toUpperCaseChar_def toLowerCaseChar_def)
  have 5: "evaluate subcaseCollaborators
        (call (ident ''styled'' (Some 0)) [ident ''Parent'' (Some 1), styleFont])
       = VStatic ''div'' [valueRed, VRequiresRuntime ''not a constant'' styleFont]"
    by (simp add: subcaseCollaborators_def tree_defs)
  have 6: "factoryRegisters subcaseCollaborators ''Child''
        (call (ident ''styled'' (Some 0)) [ident ''Parent'' (Some 1), styleFont]) = None"
    unfolding factoryRegisters_def 5 by (simp add: 4 valueRed_def)
  have 7: "map_sum id (length \<circ> reported \<circ> snd)
        (visitNode subcaseCollaborators False True [] childDeclaration emptyRegistries)
       = Inr 1"
    by (simp add: childDeclaration_def subcaseCollaborators_def tree_defs syntax_defs value_defs
        report_defs visit_defs)
  have c: "childDeclaration = variableStatement [] [] (ident ''Child'' (Some 2))
      (call (ident ''styled'' (Some 0)) [ident ''Parent'' (Some 1), styleFont])"
    by (simp add: childDeclaration_def childCall_def styledId_def)
  let ?init = "call (ident ''styled'' (Some 0)) [ident ''Parent'' (Some 1), styleFont]"
  let ?stmt = "variableStatement [] [] (ident ''Child'' (Some 2)) ?init"
  have 8: "\<not> factoryRaises subcaseCollaborators ''Child'' ?init"
    unfolding factoryRaises_def 5 by (simp add: valueRed_def)
  note t = extension_needs_registered_parent [OF 1 2 3, where c = subcaseCollaborators
      and a = False and anc = "[]" and tags = "[]" and mods = "[]" and nm = "''Child''"
      and y = "Some 0" and styleObject = styleFont]
  from t have first: "case visitNode subcaseCollaborators False True [] ?stmt emptyRegistries of
      Inl e \<Rightarrow> factoryRaises subcaseCollaborators ''Child'' ?init
    | Inr (r, s') \<Rightarrow> r = Some ?stmt
        \<and> (symbolToComponent s' = symbolToComponent emptyRegistries
           \<or> (\<exists>registered. factoryRegisters subcaseCollaborators ''Child'' ?init
                  = Some registered
               \<and> symbolToComponent s'
                  = AList.update (Some 2) registered (symbolToComponent emptyRegistries)))
        \<and> symbolsWithReferencesOutsideJsx s' = symbolsWithReferencesOutsideJsx emptyRegistries
        \<and> extendedComponentSymbols s' = extendedComponentSymbols emptyRegistries
        \<and> ((looksPascalCase ''Child'' \<and> isStaticObject (evaluate subcaseCollaborators ?init))
           \<or> s' = emptyRegistries)"
    by (rule conjunct2 [THEN conjunct1])
  from t have later: "visitNode subcaseCollaborators False False [] ?stmt emptyRegistries
      = Inr (Some ?stmt, emptyRegistries)"
    by (rule conjunct2 [THEN conjunct2, THEN conjunct1])
  from first 8 obtain r s' where
    v: "visitNode subcaseCollaborators False True [] ?stmt emptyRegistries = Inr (r, s')"
    by (cases "visitNode subcaseCollaborators False True [] ?stmt emptyRegistries") auto
  from first have r: "r = Some ?stmt"
    and "symbolToComponent s' = symbolToComponent emptyRegistries
           \<or> (\<exists>registered. factoryRegisters subcaseCollaborators ''Child'' ?init
                  = Some registered
               \<and> symbolToComponent s'
                  = AList.update (Some 2) registered (symbolToComponent emptyRegistries))"
    unfolding v by simp_all
  with 6 have s: "symbolToComponent s' = []"
    by (auto simp: emptyRegistries_def)
  have 9: "map_sum id fst
        (visitNode subcaseCollaborators False True [] childDeclaration emptyRegistries)
       = Inr (Some childDeclaration)"
    unfolding c v by (simp add: r)
  have 10: "map_sum id (symbolToComponent \<circ> snd)
        (visitNode subcaseCollaborators False True [] childDeclaration emptyRegistries)
       = Inr []"
    unfolding c v by (simp add: s)
  from later have 11: "visitNode subcaseCollaborators False False [] childDeclaration
      emptyRegistries = Inr (Some childDeclaration, emptyRegistries)"
    unfolding c .
  from 1 3 4 5 6 9 10 7 11 show ?thesis
    by (intro conjI)
qed

section \<open>Exported declarations\<close>

text \<open>
  C10, as stated, fails: an exported statement is not always unchanged in the output. In
  \<^verbatim>\<open>export const App = () => <styled.Div css={{color: 'red'}}/>;\<close> the markup inside the
  exported statement is replaced.
\<close>

theorem exported_statement_descendant_rewritten:
  "ExportKeyword \<in> set (modifiers (hd (children exportedAppFile)))
   \<and> map_sum id transformed (transformer sampleCollaborators exportedAppFile)
     = Inr (Node (SourceFile ''app.tsx'') []
         [variableStatement [] [ExportKeyword] (ident ''App'' (Some 1))
            (arrow (selfClosing (ident ''div'' None) [createClassName ''s'']))])"
  by (simp add: sampleCollaborators_def exportedAppFile_def tree_defs syntax_defs value_defs
      report_defs visit_defs toLowerCase_Div)

lemma visitNode_exported:
  assumes "isVariableStatement n" and "ExportKeyword \<in> set (modifiers n)"
  shows "visitNode c a fp anc n s = Inr (Some n, s)"
proof -
  from assms(1) have k: "kind n \<noteq> JsxSelfClosingElement" "kind n \<noteq> JsxElement"
      "kind n \<noteq> CallExpression" "\<not> isIdentifier n"
    by (auto simp: isVariableStatement_def isIdentifier_def split: kind.splits)
  have "visitVariableStatement c a fp n s = Inr (None, s)"
    using assms by (simp add: visitVariableStatement_def)
  then show ?thesis
    using k by (simp add: visitNode_def recordReference_def recordExtended_def thenTry_def)
qed

lemma visitNode_plain:
  assumes "kind n \<noteq> JsxSelfClosingElement" and "kind n \<noteq> JsxElement"
    and "\<not> isVariableStatement n"
  shows "\<exists>s'. visitNode c a fp anc n s = Inr (Some n, s')
           \<and> symbolToComponent s' = symbolToComponent s"
proof -
  have "visitVariableStatement c a fp n (recordExtended fp n (recordReference anc n s))
      = Inr (None, recordExtended fp n (recordReference anc n s))"
    using assms(3) by (simp add: visitVariableStatement_def)
  then show ?thesis
    using assms(1,2)
    by (simp add: visitNode_def thenTry_def recordReference_components
        recordExtended_components)
qed

lemma plain_kind:
  "plain n \<Longrightarrow> kind n \<noteq> JsxSelfClosingElement \<and> kind n \<noteq> JsxElement
     \<and> \<not> isVariableStatement n \<and> plains (children n)"
  by (cases n) (auto simp: isVariableStatement_def split: kind.splits)

lemma children_visited_in_place:
  assumes "visitNode c a fp anc n s = Inr (Some n, s1)"
    and "visitEachChild c a fp (n # anc) (children n) s1 = Inr (children n, s2)"
  shows "visitNodeAndChildren c a fp anc n s = Inr ([n], s2)"
  using assms by (simp add: visitNodeAndChildren.simps)

lemma traversal_plain:
  "plain n \<Longrightarrow> \<exists>s'. visitNodeAndChildren c a fp anc n s = Inr ([n], s')
      \<and> symbolToComponent s' = symbolToComponent s"
  "plains xs \<Longrightarrow> \<exists>s'. visitEachChild c a fp anc xs s = Inr (xs, s')
      \<and> symbolToComponent s' = symbolToComponent s"
proof (induction c a fp anc n s and c a fp anc xs s
    rule: visitNodeAndChildren_visitEachChild.induct)
  case (1 c a fp anc n s)
  from plain_kind [OF "1.prems"] obtain s1 where
    v: "visitNode c a fp anc n s = Inr (Some n, s1)"
    and c1: "symbolToComponent s1 = symbolToComponent s"
    and ps: "plains (children n)"
    using visitNode_plain [of n c a fp anc s] by blast
  from "1.IH" [OF v refl refl ps] obtain s2 where
    "visitEachChild c a fp (n # anc) (children n) s1 = Inr (children n, s2)"
    "symbolToComponent s2 = symbolToComponent s1"
    by blast
  with v c1 show ?case
    using children_visited_in_place [of c a fp anc n s s1 s2] by auto
next
  case (2 c a fp anc s)
  then show ?case by simp
next
  case (3 c a fp anc x xs s)
  from "3.prems" have px: "plain x" and pxs: "plains xs" by simp_all
  from "3.IH"(1) [OF px] obtain s1 where
    x: "visitNodeAndChildren c a fp anc x s = Inr ([x], s1)"
    and c1: "symbolToComponent s1 = symbolToComponent s"
    by blast
  from "3.IH"(2) [OF x refl pxs] obtain s2 where
    "visitEachChild c a fp anc xs s1 = Inr (xs, s2)"
    "symbolToComponent s2 = symbolToComponent s1"
    by blast
  with x c1 show ?case by simp
qed

text \<open>
  C10, amended. For every variable statement carrying an \<^verbatim>\<open>export\<close> modifier,
  \<^verbatim>\<open>visitNode\<close> returns the statement itself and leaves the registries as they were, in
  every pass: its declaration is never registered and the statement is never removed or
  replaced, whatever its initializer. Its children are visited like any others; when they
  hold no markup element and no variable statement (as for a direct call of the styling
  primitive on a literal descriptor) the statement is unchanged in the output.
\<close>

theorem exported_statement_kept:
  assumes "isVariableStatement n" and "ExportKeyword \<in> set (modifiers n)"
  shows "visitNode c a fp anc n s = Inr (Some n, s)
       \<and> (plains (children n) \<longrightarrow>
            (\<exists>s'. visitNodeAndChildren c a fp anc n s = Inr ([n], s')
               \<and> symbolToComponent s' = symbolToComponent s))"
proof -
  have v: "visitNode c a fp anc n s = Inr (Some n, s)"
    by (rule visitNode_exported [OF assms])
  have "\<exists>s'. visitNodeAndChildren c a fp anc n s = Inr ([n], s')
               \<and> symbolToComponent s' = symbolToComponent s" if "plains (children n)"
  proof -
    from traversal_plain(2) [OF that] obtain s2 where
      "visitEachChild c a fp (n # anc) (children n) s = Inr (children n, s2)"
      "symbolToComponent s2 = symbolToComponent s"
      by blast
    then show ?thesis
      using children_visited_in_place [OF v] by auto
  qed
  with v show ?thesis by blast
qed

theorem exported_statement_kept_witness:
  "isVariableStatement exportedParent
   \<and> ExportKeyword \<in> set (modifiers exportedParent)
   \<and> plains (children exportedParent)
   \<and> visitNode sampleCollaborators False True [] exportedParent emptyRegistries
       = Inr (Some exportedParent, emptyRegistries)
   \<and> visitNode sampleCollaborators False False [] exportedParent emptyRegistries
       = Inr (Some exportedParent, emptyRegistries)
   \<and> (\<exists>s'. visitNodeAndChildren sampleCollaborators False False [] exportedParent emptyRegistries
          = Inr ([exportedParent], s') \<and> symbolToComponent s' = [])"
proof -
  have 1: "isVariableStatement exportedParent"
    by (simp add: tree_defs isVariableStatement_def)
  have 2: "ExportKeyword \<in> set (modifiers exportedParent)"
    by (simp add: tree_defs modifiers_def)
  have 3: "plains (children exportedParent)"
    by (simp add: tree_defs)
  have 4: "symbolToComponent emptyRegistries = []"
    by (simp add: emptyRegistries_def)
  show ?thesis
    using exported_statement_kept [OF 1 2, of sampleCollaborators False True "[]" emptyRegistries]
      exported_statement_kept [OF 1 2, of sampleCollaborators False False "[]" emptyRegistries]
      1 2 3 4
    by simp
qed

end
